theory Spec2Isabelle
  imports Complex_Main "HOL-Library.Word" "HOL-Library.Multiset"
begin

section \<open>Data model (main.go, struct definitions)\<close>

text \<open>
  Go's \<open>int\<close> is 64 bits wide on the platforms the server is built for. Record ids are
  only compared and used as map keys, so they are integers; the counters that the code
  increments are 64-bit words, whose \<open>+\<close> wraps as Go's \<open>++\<close> does. Heights and weights
  are \<open>float32\<close> values that the modelled code only compares with zero; they are
  represented by the number they denote.
\<close>

record PokemonStats =
  HP :: int
  Attack :: int
  Defense :: int
  SpAttack :: int
  SpDefense :: int
  Speed :: int

record Pokemon =
  ID :: int
  Name :: string
  EnglishName :: string
  Category :: string
  Stats :: PokemonStats
  ImageURL :: string
  Height :: real
  Weight :: real
  Types :: "string list"

record RegionalStatDetail =
  Total :: "64 word"
  Correct :: "64 word"

text \<open>
  \<open>UserStat.WrongAnswers\<close> and \<open>UserStat.RegionalStats\<close> are text columns holding JSON.
  The code never inspects such a text except by comparing it with the literals \<open>""\<close>,
  \<open>"null"\<close> and \<open>"{}"\<close> and by handing it to \<open>json.Unmarshal\<close>, so a text is
  represented by what those operations observe:
  \<^item> \<open>Empty_text\<close> is the empty string;
  \<^item> \<open>Null_text\<close> is the text \<open>null\<close> (or another spelling of the JSON value null,
    which every reader treats alike): \<open>json.Unmarshal\<close> accepts it without error and
    leaves a slice or map target \<open>nil\<close>;
  \<^item> \<open>Doc v\<close> is a text that \<open>json.Unmarshal\<close> decodes without error to \<open>v\<close>
    (the text \<open>{}\<close> is \<open>Doc Map.empty\<close>, the text \<open>[]\<close> is \<open>Doc []\<close>);
  \<^item> \<open>Bad v\<close> is any other text: \<open>json.Unmarshal\<close> returns an error and has stored
    \<open>v\<close> in the target by then (nothing, when the text is not JSON at all).
\<close>

datatype 'a json_text = Empty_text | Null_text | Doc 'a | Bad 'a

type_synonym regional_map = "string \<rightharpoonup> RegionalStatDetail"

text \<open>
  The bookkeeping columns of the embedded \<open>gorm.Model\<close> (row id, timestamps) play no part
  in the modelled logic and are left out.
\<close>

record UserStat =
  UserID :: nat
  TotalQuestions :: "64 word"
  TotalCorrect :: "64 word"
  WrongAnswers :: "int list json_text"
  RegionalStats :: "regional_map json_text"

text \<open>The two global maps of the server, and the table of user statistics keyed by user id.\<close>

type_synonym dataset = "int \<rightharpoonup> Pokemon"
type_synonym category_index = "string \<rightharpoonup> Pokemon list"
type_synonym database = "nat \<rightharpoonup> UserStat"

text \<open>Run-time panics of the Go code that the modelled paths can raise.\<close>

datatype panic = Nil_map_write | Nil_dereference | Makeslice_cap_out_of_range

section \<open>Progress tracker (updateUserStats, updateRegionalStats)\<close>

text \<open>
  \<open>tx.FirstOrCreate(&stat, UserStat{UserID: userID})\<close>: the row of the user, or a new row
  with the column defaults (\<open>0\<close>, \<open>0\<close>, empty text, \<open>'{}'\<close>).
\<close>

definition new_UserStat :: "nat \<Rightarrow> UserStat" where
  "new_UserStat userID =
     \<lparr>UserID = userID, TotalQuestions = 0, TotalCorrect = 0,
      WrongAnswers = Empty_text, RegionalStats = Doc Map.empty\<rparr>"

definition FirstOrCreate :: "database \<Rightarrow> nat \<Rightarrow> UserStat" where
  "FirstOrCreate db userID = (case db userID of None \<Rightarrow> new_UserStat userID | Some stat \<Rightarrow> stat)"

text \<open>
  The database may fail: \<open>first_or_create_fails\<close> and \<open>save_fails\<close> say whether the two
  calls inside the transaction of \<open>updateUserStats\<close> return an error.
\<close>

record db_faults =
  first_or_create_fails :: bool
  save_fails :: bool

text \<open>
  The map that \<open>updateRegionalStats\<close> works on; \<open>None\<close> is Go's \<open>nil\<close> map. The texts
  \<open>""\<close> and \<open>"{}"\<close> take the \<open>else\<close> branch (\<open>make\<close>); a decoding error makes a new map
  too; \<open>null\<close> decodes without error and leaves the variable \<open>nil\<close>.
\<close>

definition load_regionalStats :: "UserStat \<Rightarrow> regional_map option" where
  "load_regionalStats stat =
     (case RegionalStats stat of
        Empty_text \<Rightarrow> Some Map.empty
      | Null_text \<Rightarrow> None
      | Doc m \<Rightarrow> Some m
      | Bad _ \<Rightarrow> Some Map.empty)"

text \<open>Reading a Go map at a key that may be missing gives the zero value.\<close>

definition zero_detail :: RegionalStatDetail where
  "zero_detail = \<lparr>Total = 0, Correct = 0\<rparr>"

definition map_read :: "regional_map \<Rightarrow> string \<Rightarrow> RegionalStatDetail" where
  "map_read m region = (case m region of None \<Rightarrow> zero_detail | Some d \<Rightarrow> d)"

definition updateRegionalStats :: "UserStat \<Rightarrow> string \<Rightarrow> bool \<Rightarrow> panic + UserStat" where
  "updateRegionalStats stat region isCorrect =
     (case load_regionalStats stat of
        None \<Rightarrow> Inl Nil_map_write
      | Some regionalStats \<Rightarrow>
          (let regionStat = map_read regionalStats region;
               regionStat = regionStat\<lparr>Total := Total regionStat + 1\<rparr>;
               regionStat = (if isCorrect then regionStat\<lparr>Correct := Correct regionStat + 1\<rparr>
                             else regionStat)
           in Inr (stat\<lparr>RegionalStats := Doc (regionalStats(region \<mapsto> regionStat))\<rparr>)))"

text \<open>
  The list of missed ids as \<open>updateUserStats\<close> decodes it: the texts \<open>""\<close> and \<open>"null"\<close>
  are not decoded, and a decoding error resets the list.
\<close>

definition load_wrongIDs :: "UserStat \<Rightarrow> int list" where
  "load_wrongIDs stat =
     (case WrongAnswers stat of
        Empty_text \<Rightarrow> []
      | Null_text \<Rightarrow> []
      | Doc ids \<Rightarrow> ids
      | Bad _ \<Rightarrow> [])"

text \<open>
  The outcome of the transaction: committed with the new table, rolled back after a
  database error (which \<open>updateUserStats\<close> only logs), or left by a panic.
\<close>

datatype tx_result = Committed database | Rolled_back | Panicked panic

definition updateUserStats ::
  "dataset \<Rightarrow> db_faults \<Rightarrow> database \<Rightarrow> nat \<Rightarrow> int \<Rightarrow> bool \<Rightarrow> tx_result" where
  "updateUserStats pokemonMapByID faults db userID pokemonID isCorrect =
     (if first_or_create_fails faults then Rolled_back
      else
        (let stat = FirstOrCreate db userID;
             stat = stat\<lparr>TotalQuestions := TotalQuestions stat + 1\<rparr>;
             wrongIDs = load_wrongIDs stat
         in case (case pokemonMapByID pokemonID of
                    Some pokemon \<Rightarrow>
                      if Category pokemon \<noteq> [] then updateRegionalStats stat (Category pokemon) isCorrect
                      else Inr stat
                  | None \<Rightarrow> Inr stat) of
              Inl p \<Rightarrow> Panicked p
            | Inr stat \<Rightarrow>
                (let stat = (if isCorrect then stat\<lparr>TotalCorrect := TotalCorrect stat + 1\<rparr> else stat);
                     wrongIDs = (if isCorrect then filter (\<lambda>i. i \<noteq> pokemonID) wrongIDs
                                 else if pokemonID \<in> set wrongIDs then wrongIDs
                                 else wrongIDs @ [pokemonID]);
                     stat = stat\<lparr>WrongAnswers := Doc wrongIDs\<rparr>
                 in if save_fails faults then Rolled_back
                    else Committed (db(userID \<mapsto> stat)))))"

text \<open>The category counters of a row, as the tracker reads them.\<close>

definition category_counters :: "UserStat \<Rightarrow> string \<Rightarrow> RegionalStatDetail" where
  "category_counters stat region =
     (case load_regionalStats stat of None \<Rightarrow> zero_detail | Some m \<Rightarrow> map_read m region)"

section \<open>Quiz engine (handleGetQuiz, sendQuiz)\<close>

text \<open>
  \<open>rand.Int(rand.Reader, max)\<close> either fails or returns a number below \<open>max\<close> (the
  \<open>bound\<close> here; it is at least 1 at every call of the modelled code, so the panic of
  \<open>rand.Int\<close> on a smaller one cannot occur). The random source is a function giving
  the outcome of each call in turn: \<open>None\<close> for an error, or a raw number that is
  reduced below the bound. The calls of one request are numbered from \<open>0\<close>.
\<close>

type_synonym entropy = "nat \<Rightarrow> nat option"

definition rand_Int :: "entropy \<Rightarrow> nat \<Rightarrow> nat \<Rightarrow> nat option" where
  "rand_Int reader k bound = map_option (\<lambda>r. r mod bound) (reader k)"

text \<open>
  The shuffle loop \<open>for i := len(a) - 1; i > 0; i-- { j := rand.Int(i + 1); a[i], a[j] = a[j], a[i] }\<close>,
  which \<open>sendQuiz\<close> runs on the candidates and on the options. The error of \<open>rand.Int\<close>
  is dropped there, so a failing source makes \<open>jBig.Int64()\<close> dereference \<open>nil\<close>.
  The result carries the number of the next call of the random source.
\<close>

fun shuffle_from :: "entropy \<Rightarrow> nat \<Rightarrow> nat \<Rightarrow> 'a list \<Rightarrow> panic + ('a list \<times> nat)" where
  "shuffle_from reader k 0 a = Inr (a, k)"
| "shuffle_from reader k (Suc i) a =
     (case rand_Int reader k (Suc i + 1) of
        None \<Rightarrow> Inl Nil_dereference
      | Some j \<Rightarrow> shuffle_from reader (Suc k) i (a[Suc i := a ! j, j := a ! Suc i]))"

definition shuffle :: "entropy \<Rightarrow> nat \<Rightarrow> 'a list \<Rightarrow> panic + ('a list \<times> nat)" where
  "shuffle reader k a = (if a = [] then Inr (a, k) else shuffle_from reader k (length a - 1) a)"

datatype http_status =
  StatusOK | StatusBadRequest | StatusUnauthorized | StatusNotFound | StatusInternalServerError

text \<open>
  The error messages of the handlers, in the order of the source: the three of the review
  branch of \<open>handleGetQuiz\<close> and the one for a missing record there (Japanese texts,
  but for "Failed to select a random question"), "Invalid or empty region specified",
  "Failed to select a random pokemon", "Invalid request body", "Pokemon not found" and
  "Stats not found".
\<close>

datatype error_message =
  Auth_required
  | No_wrong_answers
  | Random_question_failed
  | Pokemon_data_missing
  | Invalid_region
  | Random_pokemon_failed
  | Invalid_request_body
  | Pokemon_not_found
  | Stats_not_found

record quiz_question =
  q_id :: int
  q_stats :: PokemonStats
  q_options :: "string list"
  q_height :: real
  q_weight :: real
  q_types :: "string list"

record stats_view =
  v_TotalQuestions :: "64 word"
  v_TotalCorrect :: "64 word"
  v_WrongAnswers :: "int list json_text"
  v_RegionalStats :: regional_map

datatype body =
  Error_body error_message
  | Quiz_body quiz_question
  | Answer_body bool Pokemon
  | Stats_body stats_view
  | Empty_stats_body UserStat

text \<open>
  A handler either writes a reply or panics; \<open>gin.Recovery\<close> turns the panic into a
  reply with status 500 and no body. The reply to a statistics request carries the row
  id as well, which the model leaves out with the other \<open>gorm.Model\<close> columns.
\<close>

datatype response = Reply http_status body | Recovered panic

fun status_of :: "response \<Rightarrow> http_status" where
  "status_of (Reply status _) = status"
| "status_of (Recovered _) = StatusInternalServerError"

text \<open>
  \<open>make([]*Pokemon, 0, len(optionsPool)-1)\<close> panics on an empty pool, whose capacity
  would be \<open>-1\<close>. The loop \<open>for i := 0; i < 3 && i < len(filteredOptionsPool); i++\<close>
  appends the names of the first three candidates, or of all when there are fewer.
\<close>

definition sendQuiz :: "entropy \<Rightarrow> nat \<Rightarrow> Pokemon \<Rightarrow> Pokemon list \<Rightarrow> response" where
  "sendQuiz reader k pokemon optionsPool =
     (if optionsPool = [] then Recovered Makeslice_cap_out_of_range
      else
        (let filteredOptionsPool = filter (\<lambda>p. ID p \<noteq> ID pokemon) optionsPool
         in case shuffle reader k filteredOptionsPool of
              Inl p \<Rightarrow> Recovered p
            | Inr (filteredOptionsPool, k) \<Rightarrow>
                (let options = [Name pokemon] @ map Name (take 3 filteredOptionsPool)
                 in case shuffle reader k options of
                      Inl p \<Rightarrow> Recovered p
                    | Inr (options, _) \<Rightarrow>
                        Reply StatusOK
                          (Quiz_body \<lparr>q_id = ID pokemon, q_stats = Stats pokemon, q_options = options,
                                      q_height = Height pokemon, q_weight = Weight pokemon,
                                      q_types = Types pokemon\<rparr>))))"

text \<open>
  A request to \<open>/quiz\<close>: the query parameters \<open>region\<close> and \<open>retry\<close> when present,
  and the user that the context value or a valid bearer token identifies, if any (token
  verification is outside the model).
\<close>

record quiz_request =
  region_param :: "string option"
  retry_param :: "string option"
  quiz_user :: "nat option"

definition DefaultQuery :: "string option \<Rightarrow> string \<Rightarrow> string" where
  "DefaultQuery param dflt = (case param of None \<Rightarrow> dflt | Some v \<Rightarrow> v)"

text \<open>
  The missed ids as \<open>handleGetQuiz\<close> and the migration decode them: the error of
  \<open>json.Unmarshal\<close> is ignored, so whatever was decoded before the error is used.
  (\<open>handleGetQuiz\<close> does decode the text \<open>null\<close>, which gives the \<open>nil\<close> slice.)
\<close>

definition decode_wrongIDs :: "UserStat \<Rightarrow> int list" where
  "decode_wrongIDs stat =
     (case WrongAnswers stat of
        Empty_text \<Rightarrow> []
      | Null_text \<Rightarrow> []
      | Doc ids \<Rightarrow> ids
      | Bad ids \<Rightarrow> ids)"

text \<open>
  \<open>for _, p := range pokemonMapByID\<close> visits the entries in an order of Go's choosing.
  Where the order shows in the result, the model takes the list of keys in the order of
  the visit; \<open>enumerates ids m\<close> says that \<open>ids\<close> is such a list for the map \<open>m\<close>.
\<close>

definition enumerates :: "int list \<Rightarrow> dataset \<Rightarrow> bool" where
  "enumerates ids m = (distinct ids \<and> set ids = dom m)"

definition range_values :: "int list \<Rightarrow> dataset \<Rightarrow> Pokemon list" where
  "range_values ids m = List.map_filter m ids"

text \<open>
  \<open>db.FirstOrCreate\<close> in \<open>handleGetQuiz\<close> runs outside a transaction and its error is
  ignored: on an error the variable keeps its zero value and the table is unchanged.
\<close>

definition zero_UserStat :: UserStat where
  "zero_UserStat =
     \<lparr>UserID = 0, TotalQuestions = 0, TotalCorrect = 0,
      WrongAnswers = Empty_text, RegionalStats = Empty_text\<rparr>"

definition handleGetQuiz ::
  "category_index \<Rightarrow> dataset \<Rightarrow> int list \<Rightarrow> entropy \<Rightarrow> db_faults \<Rightarrow> database \<Rightarrow> quiz_request
     \<Rightarrow> response \<times> database" where
  "handleGetQuiz pokemonListByRegion pokemonMapByID ids reader faults db req =
     (let region = DefaultQuery (region_param req) ''kanto'';
          retry = (DefaultQuery (retry_param req) ''false'' = ''true'')
      in if retry then
           (case quiz_user req of
              None \<Rightarrow> (Reply StatusUnauthorized (Error_body Auth_required), db)
            | Some userID \<Rightarrow>
                (let stat = (if first_or_create_fails faults then zero_UserStat
                             else FirstOrCreate db userID);
                     db = (if first_or_create_fails faults then db else db(userID \<mapsto> stat));
                     wrongIDs = decode_wrongIDs stat
                 in if length wrongIDs = 0 then
                      (Reply StatusNotFound (Error_body No_wrong_answers), db)
                    else
                      (case rand_Int reader 0 (length wrongIDs) of
                         None \<Rightarrow> (Reply StatusInternalServerError (Error_body Random_question_failed), db)
                       | Some randIndex \<Rightarrow>
                           (let targetID = wrongIDs ! randIndex
                            in case pokemonMapByID targetID of
                                 None \<Rightarrow>
                                   (Reply StatusInternalServerError (Error_body Pokemon_data_missing), db)
                               | Some pokemon \<Rightarrow>
                                   (let optionsPool =
                                          (case pokemonListByRegion (Category pokemon) of
                                             None \<Rightarrow> range_values ids pokemonMapByID
                                           | Some pool \<Rightarrow>
                                               if length pool = 0 then range_values ids pokemonMapByID
                                               else pool)
                                    in (sendQuiz reader 1 pokemon optionsPool, db))))))
         else
           (case pokemonListByRegion region of
              None \<Rightarrow> (Reply StatusBadRequest (Error_body Invalid_region), db)
            | Some targetPokemonList \<Rightarrow>
                if length targetPokemonList = 0 then
                  (Reply StatusBadRequest (Error_body Invalid_region), db)
                else
                  (case rand_Int reader 0 (length targetPokemonList) of
                     None \<Rightarrow> (Reply StatusInternalServerError (Error_body Random_pokemon_failed), db)
                   | Some randIndex \<Rightarrow>
                       (sendQuiz reader 1 (targetPokemonList ! randIndex) targetPokemonList, db))))"

section \<open>Answers (handleAnswer)\<close>

text \<open>
  A request to \<open>/answer\<close>: the bound JSON body (\<open>None\<close> when \<open>ShouldBindJSON\<close> fails)
  and the identified user, if any.
\<close>

record answer_request =
  answer_body :: "(int \<times> string) option"
  answer_user :: "nat option"

definition handleAnswer ::
  "dataset \<Rightarrow> db_faults \<Rightarrow> database \<Rightarrow> answer_request \<Rightarrow> response \<times> database" where
  "handleAnswer pokemonMapByID faults db req =
     (case answer_body req of
        None \<Rightarrow> (Reply StatusBadRequest (Error_body Invalid_request_body), db)
      | Some (requestID, requestName) \<Rightarrow>
          (case pokemonMapByID requestID of
             None \<Rightarrow> (Reply StatusNotFound (Error_body Pokemon_not_found), db)
           | Some correctPokemon \<Rightarrow>
               (let isCorrect = (requestName = Name correctPokemon)
                in case answer_user req of
                     None \<Rightarrow> (Reply StatusOK (Answer_body isCorrect correctPokemon), db)
                   | Some userID \<Rightarrow>
                       (case updateUserStats pokemonMapByID faults db userID (ID correctPokemon) isCorrect of
                          Committed db' \<Rightarrow> (Reply StatusOK (Answer_body isCorrect correctPokemon), db')
                        | Rolled_back \<Rightarrow> (Reply StatusOK (Answer_body isCorrect correctPokemon), db)
                        | Panicked p \<Rightarrow> (Recovered p, db)))))"

section \<open>Statistics and the legacy migration (handleGetStats)\<close>

text \<open>
  One round of the loop of \<open>migrateRegionalStatsFromWrongAnswers\<close> over the entries
  \<open>(id, pokemon)\<close> of \<open>pokemonMapByID\<close> (\<open>key\<close> is the source's \<open>id\<close>).
\<close>

definition migrate_step :: "dataset \<Rightarrow> int list \<Rightarrow> int \<Rightarrow> regional_map \<Rightarrow> regional_map" where
  "migrate_step pokemonMapByID wrongIDs key regionalStats =
     (case pokemonMapByID key of
        None \<Rightarrow> regionalStats
      | Some pokemon \<Rightarrow>
          if Category pokemon = [] then regionalStats
          else if key \<in> set wrongIDs then
            (let regionStat = map_read regionalStats (Category pokemon);
                 regionStat = regionStat\<lparr>Total := Total regionStat + 1\<rparr>
             in regionalStats(Category pokemon \<mapsto> regionStat))
          else regionalStats)"

definition migrateRegionalStatsFromWrongAnswers ::
  "dataset \<Rightarrow> int list \<Rightarrow> UserStat \<Rightarrow> regional_map" where
  "migrateRegionalStatsFromWrongAnswers pokemonMapByID ids stat =
     fold (migrate_step pokemonMapByID (decode_wrongIDs stat)) ids Map.empty"

text \<open>
  The per-category map that \<open>handleGetStats\<close> decodes (errors ignored; the texts \<open>""\<close>
  and \<open>"{}"\<close> are not decoded). The reply does not tell a \<open>nil\<close> map from an empty one
  in this model; \<open>len(regionalStats) == 0\<close> holds for both.
\<close>

definition decode_regionalStats :: "UserStat \<Rightarrow> regional_map" where
  "decode_regionalStats stat =
     (case RegionalStats stat of
        Empty_text \<Rightarrow> Map.empty
      | Null_text \<Rightarrow> Map.empty
      | Doc m \<Rightarrow> m
      | Bad m \<Rightarrow> m)"

text \<open>
  \<open>db.First\<close> either finds the row, reports that there is none, or fails otherwise
  (\<open>first_fails\<close>). The handler calls nothing that writes to the table; the table is
  returned beside the reply so that this can be stated.
\<close>

definition handleGetStats ::
  "dataset \<Rightarrow> int list \<Rightarrow> bool \<Rightarrow> database \<Rightarrow> nat \<Rightarrow> response \<times> database" where
  "handleGetStats pokemonMapByID ids first_fails db userID =
     (if first_fails then (Reply StatusNotFound (Error_body Stats_not_found), db)
      else
        (case db userID of
           None \<Rightarrow>
             (Reply StatusOK
                (Empty_stats_body \<lparr>UserID = userID, TotalQuestions = 0, TotalCorrect = 0,
                                   WrongAnswers = Doc [], RegionalStats = Empty_text\<rparr>), db)
         | Some userStat \<Rightarrow>
             (let regionalStats = decode_regionalStats userStat;
                  regionalStats =
                    (if regionalStats = Map.empty \<and> 0 < sint (TotalQuestions userStat)
                     then migrateRegionalStatsFromWrongAnswers pokemonMapByID ids userStat
                     else regionalStats)
              in (Reply StatusOK
                    (Stats_body \<lparr>v_TotalQuestions = TotalQuestions userStat,
                                 v_TotalCorrect = TotalCorrect userStat,
                                 v_WrongAnswers = WrongAnswers userStat,
                                 v_RegionalStats = regionalStats\<rparr>), db))))"

text \<open>
  For stating what the migration computes: \<open>missed_in_category m wrongIDs c\<close> is the
  number of missed ids, each counted once, whose record in \<open>m\<close> carries the category
  \<open>c\<close>; \<open>tally\<close> counts the same along the keys that the loop visits.
\<close>

definition in_category :: "dataset \<Rightarrow> string \<Rightarrow> int \<Rightarrow> bool" where
  "in_category m c key = (case m key of None \<Rightarrow> False | Some p \<Rightarrow> Category p = c)"

definition missed_in_category :: "dataset \<Rightarrow> int list \<Rightarrow> string \<Rightarrow> nat" where
  "missed_in_category m wrongIDs c = length (filter (in_category m c) (remdups wrongIDs))"

definition tally :: "dataset \<Rightarrow> int list \<Rightarrow> string \<Rightarrow> int list \<Rightarrow> nat" where
  "tally m wrongIDs c keys = length (filter (\<lambda>key. key \<in> set wrongIDs \<and> in_category m c key) keys)"

section \<open>Classification (fetchCategoryData)\<close>

text \<open>Go strings are byte sequences; \<open>strings.Contains\<close> looks for a contiguous run of bytes.\<close>

fun HasPrefix :: "string \<Rightarrow> string \<Rightarrow> bool" where
  "HasPrefix s [] = True"
| "HasPrefix [] (c # cs) = False"
| "HasPrefix (x # xs) (c # cs) = (x = c \<and> HasPrefix xs cs)"

fun Contains :: "string \<Rightarrow> string \<Rightarrow> bool" where
  "Contains [] substr = (substr = [])"
| "Contains (x # xs) substr = (HasPrefix (x # xs) substr \<or> Contains xs substr)"

text \<open>The first pass: the special category that the source name of a record calls for.\<close>

definition special_category :: "string \<Rightarrow> string option" where
  "special_category englishName =
     (if Contains englishName ''-mega'' then Some ''mega''
      else if Contains englishName ''-gmax'' then Some ''gmax''
      else if Contains englishName ''-alola'' \<or> Contains englishName ''-galar''
              \<or> Contains englishName ''-hisui'' \<or> Contains englishName ''-paldea''
           then Some ''regional''
      else None)"

definition name_category :: "Pokemon \<Rightarrow> Pokemon" where
  "name_category p =
     (case special_category (EnglishName p) of
        Some c \<Rightarrow> p\<lparr>Category := c\<rparr>
      | None \<Rightarrow> p)"

definition name_pass :: "dataset \<Rightarrow> dataset" where
  "name_pass m = (\<lambda>key. map_option name_category (m key))"

text \<open>
  The builder chooses the category of a variety by the same chain of patterns, applied to
  the name of the variety (\<open>vName\<close> in \<open>fetchAllPokemonData\<close>); a variety without a
  pattern is not fetched. \<open>fetchAndAddVariety\<close> requests the record by that name, stores
  the category, and takes the source name of the record from the provider's answer to the
  request by name.
\<close>

definition variety_category :: "string \<Rightarrow> string option" where
  "variety_category vName =
     (if Contains vName ''-mega'' \<or> Contains vName ''-mega-x'' \<or> Contains vName ''-mega-y''
      then Some ''mega''
      else if Contains vName ''-gmax'' then Some ''gmax''
      else if Contains vName ''-alola'' \<or> Contains vName ''-galar''
              \<or> Contains vName ''-hisui'' \<or> Contains vName ''-paldea''
           then Some ''regional''
      else None)"

text \<open>
  The id of a species is the last part of its URL:
  \<open>strings.Split(strings.TrimSuffix(species.URL, "/"), "/")\<close>, then \<open>strconv.Atoi\<close>.
\<close>

definition TrimSuffix_slash :: "string \<Rightarrow> string" where
  "TrimSuffix_slash s = (if s \<noteq> [] \<and> last s = CHR ''/'' then butlast s else s)"

fun Split :: "char \<Rightarrow> string \<Rightarrow> string list" where
  "Split sep [] = [[]]"
| "Split sep (x # xs) =
     (if x = sep then [] # Split sep xs
      else (case Split sep xs of [] \<Rightarrow> [[x]] | part # parts \<Rightarrow> (x # part) # parts))"

definition is_digit :: "char \<Rightarrow> bool" where
  "is_digit c = (48 \<le> (of_char c :: nat) \<and> (of_char c :: nat) \<le> 57)"

definition decimal :: "string \<Rightarrow> nat" where
  "decimal digits = foldl (\<lambda>n c. n * 10 + ((of_char c :: nat) - 48)) 0 digits"

text \<open>
  \<open>strconv.Atoi\<close>: an optional sign, then one or more decimal digits; a value outside
  the 64-bit range is an error as well.
\<close>

definition Atoi :: "string \<Rightarrow> int option" where
  "Atoi s =
     (let neg = (s \<noteq> [] \<and> hd s = CHR ''-'');
          digits = (if s \<noteq> [] \<and> (hd s = CHR ''-'' \<or> hd s = CHR ''+'') then tl s else s)
      in if digits = [] \<or> \<not> list_all is_digit digits then None
         else
           (let n = int (decimal digits);
                v = (if neg then - n else n)
            in if - (2 ^ 63) \<le> v \<and> v < 2 ^ 63 then Some v else None))"

record species_ref =
  species_name :: string
  species_url :: string

definition species_id :: "species_ref \<Rightarrow> int option" where
  "species_id species = Atoi (last (Split (CHR ''/'') (TrimSuffix_slash (species_url species))))"

definition assign_member :: "string \<Rightarrow> species_ref \<Rightarrow> dataset \<Rightarrow> dataset" where
  "assign_member region species m =
     (case species_id species of
        None \<Rightarrow> m
      | Some key \<Rightarrow>
          (case m key of
             None \<Rightarrow> m
           | Some p \<Rightarrow> if Category p = [] then m(key \<mapsto> p\<lparr>Category := region\<rparr>) else m))"

definition regionGenerationMap :: "(string \<times> int) list" where
  "regionGenerationMap =
     [(''kanto'', 1), (''johto'', 2), (''hoenn'', 3), (''sinnoh'', 4), (''unova'', 5),
      (''kalos'', 6), (''alola'', 7), (''galar'', 8), (''paldea'', 9),
      (''mega'', - 1), (''gmax'', - 2), (''regional'', - 3)]"

text \<open>
  The provider's answer to \<open>/generation/{genID}\<close>: the member list, or \<open>None\<close> when
  the request or the decoding fails (the loop then goes on to the next region).
\<close>

type_synonym generations = "int \<Rightarrow> species_ref list option"

definition classify_region :: "generations \<Rightarrow> string \<times> int \<Rightarrow> dataset \<Rightarrow> dataset" where
  "classify_region provider entry m =
     (case entry of (region, genID) \<Rightarrow>
        if genID \<le> 0 then m
        else (case provider genID of
                None \<Rightarrow> m
              | Some members \<Rightarrow> fold (assign_member region) members m))"

text \<open>
  The second pass ranges over \<open>regionGenerationMap\<close> in an order of Go's choosing;
  \<open>regions\<close> is the list of its entries in the order of the visit.
\<close>

definition generation_pass :: "generations \<Rightarrow> (string \<times> int) list \<Rightarrow> dataset \<Rightarrow> dataset" where
  "generation_pass provider regions m = fold (classify_region provider) regions m"

definition fetchCategoryData :: "generations \<Rightarrow> (string \<times> int) list \<Rightarrow> dataset \<Rightarrow> dataset" where
  "fetchCategoryData provider regions m = generation_pass provider regions (name_pass m)"

section \<open>Category index (organizePokemonByRegion)\<close>

definition pool_of :: "category_index \<Rightarrow> string \<Rightarrow> Pokemon list" where
  "pool_of idx category = (case idx category of None \<Rightarrow> [] | Some pool \<Rightarrow> pool)"

definition organize_step :: "dataset \<Rightarrow> int \<Rightarrow> category_index \<Rightarrow> category_index" where
  "organize_step m key idx =
     (case m key of
        None \<Rightarrow> idx
      | Some p \<Rightarrow>
          (let idx = (if Category p \<noteq> [] then idx(Category p \<mapsto> pool_of idx (Category p) @ [p])
                      else idx)
           in idx(''all'' \<mapsto> pool_of idx ''all'' @ [p])))"

definition organizePokemonByRegion :: "int list \<Rightarrow> dataset \<Rightarrow> category_index" where
  "organizePokemonByRegion ids m = fold (organize_step m) ids Map.empty"

text \<open>
  Two properties of a dataset that the index inherits: every record is stored under its
  own id (as \<open>pokemonMapByID[pokemon.ID] = &pokemon\<close> stores it), and no two records of
  one category share a display name (the invariant of the specification's data model;
  nothing in the code establishes it).
\<close>

definition keyed_by_id :: "dataset \<Rightarrow> bool" where
  "keyed_by_id m = (\<forall>key p. m key = Some p \<longrightarrow> ID p = key)"

definition names_distinct_in_category :: "dataset \<Rightarrow> bool" where
  "names_distinct_in_category m =
     (\<forall>key key' p p'. m key = Some p \<and> m key' = Some p' \<and> key \<noteq> key' \<and> Category p = Category p'
        \<longrightarrow> Name p \<noteq> Name p')"

section \<open>Dataset cache (loadOrFetchPokemonData)\<close>

text \<open>
  The cache file as the loader sees it: absent (\<open>os.Stat\<close> reports that it does not
  exist), not accessible (\<open>os.Stat\<close> fails otherwise), present but unreadable, present
  with a text that \<open>json.Unmarshal\<close> rejects, or present with the encoding of a dataset.
\<close>

datatype cache_file = Missing | Inaccessible | Unreadable | Undecodable | Cached dataset

text \<open>
  \<open>fetchAllPokemonData\<close> talks to the provider from concurrent goroutines; the model
  takes its outcome from the environment: whether \<open>loadTypeNames\<close> fails (the only
  error it returns), and the entries that the goroutines store into the map.
  \<open>range_order\<close> is the order in which Go visits a map, \<open>write_fails\<close> says whether
  \<open>os.WriteFile\<close> fails, and \<open>failed_write_leaves\<close> is the state of the file then.
\<close>

record environment =
  type_names_fail :: bool
  fetched :: dataset
  generation :: generations
  region_order :: "(string \<times> int) list"
  range_order :: "dataset \<Rightarrow> int list"
  write_fails :: bool
  failed_write_leaves :: cache_file

record server =
  g_pokemonMapByID :: dataset
  g_pokemonListByRegion :: category_index
  g_file :: cache_file
  fetch_runs :: nat
  classify_runs :: nat

datatype startup_error =
  Read_failed | Unmarshal_failed | Refetch_failed | Fetch_failed | Write_failed | Stat_failed

definition fetchAllPokemonData :: "environment \<Rightarrow> server \<Rightarrow> bool \<times> server" where
  "fetchAllPokemonData env st =
     (if type_names_fail env then (False, st\<lparr>fetch_runs := fetch_runs st + 1\<rparr>)
      else (True, st\<lparr>g_pokemonMapByID := g_pokemonMapByID st ++ fetched env,
                     fetch_runs := fetch_runs st + 1\<rparr>))"

definition WriteFile :: "environment \<Rightarrow> server \<Rightarrow> bool \<times> server" where
  "WriteFile env st =
     (if write_fails env then (False, st\<lparr>g_file := failed_write_leaves env\<rparr>)
      else (True, st\<lparr>g_file := Cached (g_pokemonMapByID st)\<rparr>))"

definition organize :: "environment \<Rightarrow> server \<Rightarrow> server" where
  "organize env st =
     st\<lparr>g_pokemonListByRegion :=
          organizePokemonByRegion (range_order env (g_pokemonMapByID st)) (g_pokemonMapByID st)\<rparr>"

definition incomplete :: "Pokemon \<Rightarrow> bool" where
  "incomplete p = (length (Types p) = 0 \<or> Height p = 0 \<or> Weight p = 0)"

definition loadOrFetchPokemonData :: "environment \<Rightarrow> server \<Rightarrow> startup_error option \<times> server" where
  "loadOrFetchPokemonData env st =
     (case g_file st of
        Cached d \<Rightarrow>
          (let st = st\<lparr>g_pokemonMapByID := g_pokemonMapByID st ++ d\<rparr>
           in if (case g_pokemonMapByID st 1 of None \<Rightarrow> False | Some p \<Rightarrow> incomplete p) then
                (let st = st\<lparr>g_pokemonMapByID := Map.empty\<rparr>
                 in case fetchAllPokemonData env st of
                      (False, st) \<Rightarrow> (Some Refetch_failed, st)
                    | (True, st) \<Rightarrow> (None, organize env (snd (WriteFile env st))))
              else (None, organize env st))
      | Unreadable \<Rightarrow> (Some Read_failed, st)
      | Undecodable \<Rightarrow> (Some Unmarshal_failed, st)
      | Missing \<Rightarrow>
          (case fetchAllPokemonData env st of
             (False, st) \<Rightarrow> (Some Fetch_failed, st)
           | (True, st) \<Rightarrow>
               (let st = st\<lparr>g_pokemonMapByID :=
                              fetchCategoryData (generation env) (region_order env) (g_pokemonMapByID st),
                            classify_runs := classify_runs st + 1\<rparr>
                in case WriteFile env st of
                     (False, st) \<Rightarrow> (Some Write_failed, st)
                   | (True, st) \<Rightarrow> (None, organize env st)))
      | Inaccessible \<Rightarrow> (Some Stat_failed, st))"

text \<open>The server as \<open>main\<close> finds it: both global maps empty, nothing fetched yet.\<close>

definition initial_server :: "cache_file \<Rightarrow> server" where
  "initial_server file =
     \<lparr>g_pokemonMapByID = Map.empty, g_pokemonListByRegion = Map.empty, g_file = file,
      fetch_runs = 0, classify_runs = 0\<rparr>"

section \<open>Example data\<close>

definition no_faults :: db_faults where
  "no_faults = \<lparr>first_or_create_fails = False, save_fails = False\<rparr>"

definition base_stats :: PokemonStats where
  "base_stats = \<lparr>HP = 45, Attack = 49, Defense = 49, SpAttack = 65, SpDefense = 65, Speed = 45\<rparr>"

definition bulbasaur :: Pokemon where
  "bulbasaur =
     \<lparr>ID = 1, Name = ''Fushigidane'', EnglishName = ''bulbasaur'', Category = ''kanto'',
      Stats = base_stats, ImageURL = [], Height = 7 / 10, Weight = 69 / 10,
      Types = [''kusa'', ''doku'']\<rparr>"

definition ivysaur :: Pokemon where
  "ivysaur =
     \<lparr>ID = 2, Name = ''Fushigisou'', EnglishName = ''ivysaur'', Category = ''kanto'',
      Stats = base_stats, ImageURL = [], Height = 1, Weight = 13,
      Types = [''kusa'', ''doku'']\<rparr>"

definition kanto_two :: dataset where
  "kanto_two = [1 \<mapsto> bulbasaur, 2 \<mapsto> ivysaur]"

definition charizard :: Pokemon where
  "charizard =
     \<lparr>ID = 6, Name = ''Lizardon'', EnglishName = ''charizard'', Category = ''kanto'',
      Stats = base_stats, ImageURL = [], Height = 17 / 10, Weight = 905 / 10,
      Types = [''honoo'', ''hikou'']\<rparr>"

definition charizard_mega_x :: Pokemon where
  "charizard_mega_x =
     \<lparr>ID = 20034, Name = ''Lizardon'', EnglishName = ''charizard-mega-x'', Category = ''mega'',
      Stats = base_stats, ImageURL = [], Height = 17 / 10, Weight = 1105 / 10,
      Types = [''honoo'', ''dragon'']\<rparr>"

definition with_mega :: dataset where
  "with_mega = [6 \<mapsto> charizard, 20034 \<mapsto> charizard_mega_x]"

definition twins :: dataset where
  "twins = [1 \<mapsto> bulbasaur, 2 \<mapsto> ivysaur\<lparr>ID := 1\<rparr>]"

definition always :: "nat \<Rightarrow> entropy" where
  "always r = (\<lambda>k. Some r)"

definition learner :: UserStat where
  "learner =
     \<lparr>UserID = 7, TotalQuestions = 5, TotalCorrect = 3, WrongAnswers = Doc [1, 4],
      RegionalStats = Doc [''kanto'' \<mapsto> \<lparr>Total = 5, Correct = 3\<rparr>]\<rparr>"

definition legacy :: UserStat where
  "legacy =
     \<lparr>UserID = 7, TotalQuestions = 5, TotalCorrect = 3, WrongAnswers = Doc [2, 4, 2],
      RegionalStats = Doc Map.empty\<rparr>"

definition kanto_members :: generations where
  "kanto_members genID =
     (if genID = 1 then
        Some [\<lparr>species_name = ''bulbasaur'',
               species_url = ''https://pokeapi.co/api/v2/pokemon-species/1/''\<rparr>,
              \<lparr>species_name = ''charizard'',
               species_url = ''https://pokeapi.co/api/v2/pokemon-species/6/''\<rparr>,
              \<lparr>species_name = ''charizard'',
               species_url = ''https://pokeapi.co/api/v2/pokemon-species/20034/''\<rparr>]
      else None)"

definition unclassified :: dataset where
  "unclassified = [1 \<mapsto> bulbasaur\<lparr>Category := []\<rparr>, 6 \<mapsto> charizard\<lparr>Category := []\<rparr>,
                   20034 \<mapsto> charizard_mega_x]"

definition stale :: dataset where
  "stale = [1 \<mapsto> bulbasaur\<lparr>Weight := 0\<rparr>, 2 \<mapsto> ivysaur]"

definition headless :: dataset where
  "headless = [2 \<mapsto> ivysaur\<lparr>Types := [], Height := 0, Weight := 0\<rparr>]"

definition calm :: environment where
  "calm = \<lparr>type_names_fail = False, fetched = kanto_two, generation = kanto_members,
            region_order = regionGenerationMap, range_order = (\<lambda>m. [1, 2]),
            write_fails = False, failed_write_leaves = Undecodable\<rparr>"

definition offline :: environment where
  "offline = calm\<lparr>type_names_fail := True\<rparr>"

section \<open>Properties of the progress tracker\<close>

lemma updateRegionalStats_Inr:
  assumes "updateRegionalStats stat region isCorrect = Inr stat'"
  shows "load_wrongIDs stat' = load_wrongIDs stat"
    and "TotalQuestions stat' = TotalQuestions stat"
    and "TotalCorrect stat' = TotalCorrect stat"
    and "WrongAnswers stat' = WrongAnswers stat"
    and "Total (category_counters stat' region) = Total (category_counters stat region) + 1"
    and "Correct (category_counters stat' region) =
           Correct (category_counters stat region) + (if isCorrect then 1 else 0)"
  using assms
  by (auto simp: updateRegionalStats_def load_wrongIDs_def category_counters_def
      load_regionalStats_def map_read_def zero_detail_def Let_def
      split: option.splits json_text.splits if_splits)

text \<open>What a committed transaction has stored.\<close>

lemma updateUserStats_Committed:
  assumes "updateUserStats pokemonMapByID faults db userID pokemonID isCorrect = Committed db'"
  obtains stat' where "db' = db(userID \<mapsto> stat')"
    and "TotalQuestions stat' = TotalQuestions (FirstOrCreate db userID) + 1"
    and "TotalCorrect stat' = TotalCorrect (FirstOrCreate db userID) + (if isCorrect then 1 else 0)"
    and "WrongAnswers stat' =
           Doc (if isCorrect then filter (\<lambda>i. i \<noteq> pokemonID) (load_wrongIDs (FirstOrCreate db userID))
                else if pokemonID \<in> set (load_wrongIDs (FirstOrCreate db userID))
                     then load_wrongIDs (FirstOrCreate db userID)
                     else load_wrongIDs (FirstOrCreate db userID) @ [pokemonID])"
    and "\<And>pokemon. pokemonMapByID pokemonID = Some pokemon \<Longrightarrow> Category pokemon \<noteq> [] \<Longrightarrow>
           Total (category_counters stat' (Category pokemon)) =
             Total (category_counters (FirstOrCreate db userID) (Category pokemon)) + 1"
proof -
  from assms have ff: "\<not> first_or_create_fails faults" and sf: "\<not> save_fails faults"
    by (auto simp: updateUserStats_def Let_def split: if_splits sum.splits option.splits)
  let ?s0 = "FirstOrCreate db userID"
  let ?s1 = "?s0\<lparr>TotalQuestions := TotalQuestions ?s0 + 1\<rparr>"
  define r where "r = (case pokemonMapByID pokemonID of
                    Some pokemon \<Rightarrow>
                      if Category pokemon \<noteq> [] then updateRegionalStats ?s1 (Category pokemon) isCorrect
                      else Inr ?s1
                  | None \<Rightarrow> Inr ?s1)"
  from assms ff obtain s2 where r: "r = Inr s2"
    by (cases r) (auto simp: updateUserStats_def Let_def r_def split: if_splits)
  have keep: "load_wrongIDs s2 = load_wrongIDs ?s0" "TotalQuestions s2 = TotalQuestions ?s0 + 1"
    "TotalCorrect s2 = TotalCorrect ?s0"
    using r updateRegionalStats_Inr(1-3)[of ?s1 _ isCorrect s2]
    by (auto simp: r_def load_wrongIDs_def split: option.splits if_splits)
  have cat: "Total (category_counters s2 (Category pokemon)) =
             Total (category_counters ?s0 (Category pokemon)) + 1"
    if "pokemonMapByID pokemonID = Some pokemon" "Category pokemon \<noteq> []" for pokemon
    using r that updateRegionalStats_Inr(5)[of ?s1 "Category pokemon" isCorrect s2]
    by (simp add: r_def category_counters_def load_regionalStats_def)
  let ?w = "(if isCorrect then filter (\<lambda>i. i \<noteq> pokemonID) (load_wrongIDs ?s0)
                else if pokemonID \<in> set (load_wrongIDs ?s0)
                     then load_wrongIDs ?s0
                     else load_wrongIDs ?s0 @ [pokemonID])"
  let ?s3 = "(if isCorrect then s2\<lparr>TotalCorrect := TotalCorrect s2 + 1\<rparr> else s2)\<lparr>WrongAnswers := Doc ?w\<rparr>"
  have lw: "load_wrongIDs ?s1 = load_wrongIDs ?s0"
    by (simp add: load_wrongIDs_def)
  have db': "db' = db(userID \<mapsto> ?s3)"
    using assms ff sf r unfolding updateUserStats_def r_def[symmetric] Let_def lw
    by (auto simp: keep)
  show thesis
  proof (rule that[of ?s3])
    show "db' = db(userID \<mapsto> ?s3)" by (rule db')
    show "TotalQuestions ?s3 = TotalQuestions ?s0 + 1" using keep by simp
    show "TotalCorrect ?s3 = TotalCorrect ?s0 + (if isCorrect then 1 else 0)" using keep by simp
    show "WrongAnswers ?s3 = Doc ?w" by simp
    show "Total (category_counters ?s3 (Category pokemon)) =
             Total (category_counters ?s0 (Category pokemon)) + 1"
      if "pokemonMapByID pokemonID = Some pokemon" "Category pokemon \<noteq> []" for pokemon
      using cat[OF that] by (simp add: category_counters_def load_regionalStats_def)
  qed
qed

text \<open>
  The transaction commits unless the database fails or the stored per-category text is
  \<open>null\<close> (a text this code never writes).
\<close>

lemma updateUserStats_commits:
  assumes "\<not> first_or_create_fails faults" and "\<not> save_fails faults"
    and "RegionalStats (FirstOrCreate db userID) \<noteq> Null_text"
  shows "\<exists>db'. updateUserStats pokemonMapByID faults db userID pokemonID isCorrect = Committed db'"
  using assms
  by (auto simp: updateUserStats_def updateRegionalStats_def load_regionalStats_def Let_def
      split: option.splits json_text.splits)

text \<open>
  A committed transaction leaves texts that every reader decodes alike, and it never
  writes \<open>null\<close>.
\<close>

lemma updateUserStats_writes_documents:
  assumes "updateUserStats pokemonMapByID faults db userID pokemonID isCorrect = Committed db'"
  shows "\<exists>stat' ids. db' userID = Some stat' \<and> WrongAnswers stat' = Doc ids
           \<and> decode_wrongIDs stat' = load_wrongIDs stat'
           \<and> (RegionalStats stat' = RegionalStats (FirstOrCreate db userID)
                \<or> (\<exists>m. RegionalStats stat' = Doc m))"
  using assms
  by (auto simp: updateUserStats_def updateRegionalStats_def decode_wrongIDs_def load_wrongIDs_def
      Let_def split: if_splits option.splits sum.splits)

text \<open>
  \<open>handleAnswer\<close> grades a known id against the display name of its record and, for an
  identified user, passes the id of that record and the grade to \<open>updateUserStats\<close>.
\<close>

lemma handleAnswer_known_id:
  assumes "answer_body areq = Some (requestID, requestName)"
    and "pokemonMapByID requestID = Some correctPokemon"
    and "answer_user areq = Some userID"
  shows "handleAnswer pokemonMapByID faults db areq =
     (case updateUserStats pokemonMapByID faults db userID (ID correctPokemon)
             (requestName = Name correctPokemon) of
        Committed db' \<Rightarrow>
          (Reply StatusOK (Answer_body (requestName = Name correctPokemon) correctPokemon), db')
      | Rolled_back \<Rightarrow>
          (Reply StatusOK (Answer_body (requestName = Name correctPokemon) correctPokemon), db)
      | Panicked p \<Rightarrow> (Recovered p, db))"
  using assms by (simp add: handleAnswer_def Let_def)

text \<open>
  Unless a counter has reached the largest 64-bit value, adding one to the word adds one
  to the integer it stands for.
\<close>

lemma next_count_sint:
  fixes w :: "64 word"
  assumes "sint w < 2 ^ 63 - 1"
  shows "sint (w + 1) = sint w + 1"
proof -
  have "- (2 ^ 63) \<le> sint w"
    using sint_ge [of w] by simp
  then have "signed_take_bit 63 (sint w + 1) = sint w + 1"
    using assms by (intro signed_take_bit_int_eq_self) simp_all
  then show ?thesis
    by (simp add: sint_word_add)
qed

text \<open>
  The readers of the missed ids differ only on a text that does not decode, and so do
  the readers of the per-category map (but for \<open>null\<close>, on which the tracker panics).
\<close>

lemma regional_readers_agree:
  "(\<forall>m. RegionalStats stat \<noteq> Bad m) \<Longrightarrow> RegionalStats stat \<noteq> Null_text \<Longrightarrow>
     load_regionalStats stat = Some (decode_regionalStats stat)"
  by (cases "RegionalStats stat") (simp_all add: load_regionalStats_def decode_regionalStats_def)


lemma readers_agree:
  "(\<forall>ids. WrongAnswers stat \<noteq> Bad ids) \<Longrightarrow> decode_wrongIDs stat = load_wrongIDs stat"
  by (cases "WrongAnswers stat") (simp_all add: decode_wrongIDs_def load_wrongIDs_def)

text \<open>
  C2. Every committed call of \<open>updateUserStats\<close> for a record of the dataset that has a
  category adds exactly one (in Go's 64-bit arithmetic, see \<open>next_count_sint\<close>) to the
  user's count of answered questions and to the total of that category, whether or not
  the answer was correct. A user without a row starts from the new row's zeros. The
  counters of a row are read as the tracker itself decodes the stored text.
\<close>

theorem C2_counters_increase_by_one:
  assumes "updateUserStats pokemonMapByID faults db userID pokemonID isCorrect = Committed db'"
    and "pokemonMapByID pokemonID = Some pokemon"
    and "Category pokemon \<noteq> []"
  shows "db' userID \<noteq> None
       \<and> TotalQuestions (FirstOrCreate db' userID) = TotalQuestions (FirstOrCreate db userID) + 1
       \<and> Total (category_counters (FirstOrCreate db' userID) (Category pokemon)) =
           Total (category_counters (FirstOrCreate db userID) (Category pokemon)) + 1"
proof -
  from assms(1) obtain stat' where "db' = db(userID \<mapsto> stat')"
    and "TotalQuestions stat' = TotalQuestions (FirstOrCreate db userID) + 1"
    and "\<And>pokemon. pokemonMapByID pokemonID = Some pokemon \<Longrightarrow> Category pokemon \<noteq> [] \<Longrightarrow>
           Total (category_counters stat' (Category pokemon)) =
             Total (category_counters (FirstOrCreate db userID) (Category pokemon)) + 1"
    by (rule updateUserStats_Committed) blast
  with assms(2,3) show ?thesis
    by (simp add: FirstOrCreate_def)
qed

theorem C2_witness:
  "\<exists>db'. updateUserStats kanto_two no_faults [7 \<mapsto> learner] 7 2 False = Committed db'
        \<and> kanto_two 2 = Some ivysaur
        \<and> Category ivysaur = ''kanto''
        \<and> TotalQuestions (FirstOrCreate [7 \<mapsto> learner] 7) = 5
        \<and> Total (category_counters (FirstOrCreate [7 \<mapsto> learner] 7) ''kanto'') = 5
        \<and> TotalQuestions (FirstOrCreate db' 7) = 6
        \<and> Total (category_counters (FirstOrCreate db' 7) ''kanto'') = 6"
proof -
  have "RegionalStats (FirstOrCreate [7 \<mapsto> learner] 7) \<noteq> Null_text"
    by (simp add: FirstOrCreate_def learner_def)
  then obtain db' where
    run: "updateUserStats kanto_two no_faults [7 \<mapsto> learner] 7 2 False = Committed db'"
    using updateUserStats_commits [of no_faults "[7 \<mapsto> learner]" 7 kanto_two 2 False]
    by (auto simp: no_faults_def)
  have look: "kanto_two 2 = Some ivysaur" by (simp add: kanto_two_def)
  have k: "Category ivysaur = ''kanto''" by (simp add: ivysaur_def)
  then have cat: "Category ivysaur \<noteq> []" by simp
  have before: "TotalQuestions (FirstOrCreate [7 \<mapsto> learner] 7) = 5"
    "Total (category_counters (FirstOrCreate [7 \<mapsto> learner] 7) ''kanto'') = 5"
    by (simp_all add: FirstOrCreate_def learner_def category_counters_def
        load_regionalStats_def map_read_def)
  from C2_counters_increase_by_one [OF run look cat] run look k before show ?thesis
    by auto
qed

text \<open>
  C4. A committed correct answer for the id \<open>X\<close> removes \<open>X\<close> from the missed ids and
  nothing else: the new list is the old one without (every occurrence of) \<open>X\<close>, in the
  old order; when \<open>X\<close> was not in the list the list is unchanged. The missed ids are read
  as \<open>updateUserStats\<close> itself decodes the stored text; the text it stores is decoded alike
  by the other readers.
\<close>

theorem C4_correct_answer_removes_only_that_id:
  assumes "updateUserStats pokemonMapByID faults db userID X True = Committed db'"
  shows "load_wrongIDs (FirstOrCreate db' userID) =
           filter (\<lambda>i. i \<noteq> X) (load_wrongIDs (FirstOrCreate db userID))
       \<and> set (load_wrongIDs (FirstOrCreate db' userID)) =
           set (load_wrongIDs (FirstOrCreate db userID)) - {X}
       \<and> (X \<notin> set (load_wrongIDs (FirstOrCreate db userID)) \<longrightarrow>
            load_wrongIDs (FirstOrCreate db' userID) = load_wrongIDs (FirstOrCreate db userID))
       \<and> decode_wrongIDs (FirstOrCreate db' userID) = load_wrongIDs (FirstOrCreate db' userID)"
proof -
  let ?old = "load_wrongIDs (FirstOrCreate db userID)"
  from assms obtain stat' where db': "db' = db(userID \<mapsto> stat')"
    and w: "WrongAnswers stat' = Doc (filter (\<lambda>i. i \<noteq> X) ?old)"
    by (rule updateUserStats_Committed) simp
  have new: "load_wrongIDs (FirstOrCreate db' userID) = filter (\<lambda>i. i \<noteq> X) ?old"
    and dec: "decode_wrongIDs (FirstOrCreate db' userID) = filter (\<lambda>i. i \<noteq> X) ?old"
    using db' w by (simp_all add: FirstOrCreate_def load_wrongIDs_def decode_wrongIDs_def)
  have "X \<notin> set ?old \<Longrightarrow> filter (\<lambda>i. i \<noteq> X) ?old = ?old"
    by (rule filter_True) auto
  with new dec show ?thesis by auto
qed

theorem C4_witness:
  "\<exists>db' db''. updateUserStats kanto_two no_faults [7 \<mapsto> learner] 7 1 True = Committed db'
        \<and> updateUserStats kanto_two no_faults [7 \<mapsto> learner] 7 2 True = Committed db''
        \<and> load_wrongIDs (FirstOrCreate [7 \<mapsto> learner] 7) = [1, 4]
        \<and> load_wrongIDs (FirstOrCreate db' 7) = [4]
        \<and> load_wrongIDs (FirstOrCreate db'' 7) = [1, 4]"
proof -
  have nn: "RegionalStats (FirstOrCreate [7 \<mapsto> learner] 7) \<noteq> Null_text"
    by (simp add: FirstOrCreate_def learner_def)
  then obtain db' where
    run: "updateUserStats kanto_two no_faults [7 \<mapsto> learner] 7 1 True = Committed db'"
    using updateUserStats_commits [of no_faults "[7 \<mapsto> learner]" 7 kanto_two 1 True]
    by (auto simp: no_faults_def)
  from nn obtain db'' where
    run': "updateUserStats kanto_two no_faults [7 \<mapsto> learner] 7 2 True = Committed db''"
    using updateUserStats_commits [of no_faults "[7 \<mapsto> learner]" 7 kanto_two 2 True]
    by (auto simp: no_faults_def)
  have old: "load_wrongIDs (FirstOrCreate [7 \<mapsto> learner] 7) = [1, 4]"
    by (simp add: FirstOrCreate_def learner_def load_wrongIDs_def)
  from C4_correct_answer_removes_only_that_id [OF run]
    C4_correct_answer_removes_only_that_id [OF run'] old run run' show ?thesis
    by auto
qed

text \<open>
  C5. Two committed incorrect answers for the same id leave the same missed ids as the
  first one alone: the first call appends the id only when it is not in the list yet, and
  the second call changes neither the list nor its length.
\<close>

theorem C5_repeated_mistake_is_recorded_once:
  assumes "updateUserStats pokemonMapByID faults db userID X False = Committed db1"
    and "updateUserStats pokemonMapByID faults' db1 userID X False = Committed db2"
  shows "load_wrongIDs (FirstOrCreate db1 userID) =
           (if X \<in> set (load_wrongIDs (FirstOrCreate db userID))
            then load_wrongIDs (FirstOrCreate db userID)
            else load_wrongIDs (FirstOrCreate db userID) @ [X])
       \<and> load_wrongIDs (FirstOrCreate db2 userID) = load_wrongIDs (FirstOrCreate db1 userID)
       \<and> length (load_wrongIDs (FirstOrCreate db2 userID)) =
           length (load_wrongIDs (FirstOrCreate db1 userID))"
proof -
  let ?old = "load_wrongIDs (FirstOrCreate db userID)"
  let ?mid = "load_wrongIDs (FirstOrCreate db1 userID)"
  from assms(1) obtain stat1 where db1: "db1 = db(userID \<mapsto> stat1)"
    and w1: "WrongAnswers stat1 = Doc (if X \<in> set ?old then ?old else ?old @ [X])"
    by (rule updateUserStats_Committed) simp
  have mid: "?mid = (if X \<in> set ?old then ?old else ?old @ [X])"
    using db1 w1 by (simp add: FirstOrCreate_def load_wrongIDs_def)
  then have present: "X \<in> set ?mid" by simp
  from assms(2) obtain stat2 where db2: "db2 = db1(userID \<mapsto> stat2)"
    and w2: "WrongAnswers stat2 = Doc (if X \<in> set ?mid then ?mid else ?mid @ [X])"
    by (rule updateUserStats_Committed) simp
  have "load_wrongIDs (FirstOrCreate db2 userID) = ?mid"
    using db2 w2 present by (simp add: FirstOrCreate_def load_wrongIDs_def)
  with mid show ?thesis by simp
qed

theorem C5_witness:
  "\<exists>db1 db2. updateUserStats kanto_two no_faults [7 \<mapsto> learner] 7 2 False = Committed db1
        \<and> updateUserStats kanto_two no_faults db1 7 2 False = Committed db2
        \<and> load_wrongIDs (FirstOrCreate [7 \<mapsto> learner] 7) = [1, 4]
        \<and> load_wrongIDs (FirstOrCreate db1 7) = [1, 4, 2]
        \<and> load_wrongIDs (FirstOrCreate db2 7) = [1, 4, 2]"
proof -
  have "RegionalStats (FirstOrCreate [7 \<mapsto> learner] 7) \<noteq> Null_text"
    by (simp add: FirstOrCreate_def learner_def)
  then obtain db1 where
    run1: "updateUserStats kanto_two no_faults [7 \<mapsto> learner] 7 2 False = Committed db1"
    using updateUserStats_commits [of no_faults "[7 \<mapsto> learner]" 7 kanto_two 2 False]
    by (auto simp: no_faults_def)
  have "RegionalStats (FirstOrCreate db1 7) \<noteq> Null_text"
    using updateUserStats_writes_documents [OF run1]
    by (auto simp: FirstOrCreate_def learner_def)
  then obtain db2 where
    run2: "updateUserStats kanto_two no_faults db1 7 2 False = Committed db2"
    using updateUserStats_commits [of no_faults db1 7 kanto_two 2 False]
    by (auto simp: no_faults_def)
  have old: "load_wrongIDs (FirstOrCreate [7 \<mapsto> learner] 7) = [1, 4]"
    by (simp add: FirstOrCreate_def learner_def load_wrongIDs_def)
  from C5_repeated_mistake_is_recorded_once [OF run1 run2] old run1 run2 show ?thesis
    by auto
qed

section \<open>Properties of the category index\<close>

text \<open>
  The pools that \<open>organizePokemonByRegion\<close> builds: the pool of a category holds the
  records of that category in the order of the visit, the pool \<open>all\<close> holds every record
  (twice, should its category be called \<open>all\<close>), and no pool of the index is empty.
\<close>

lemma range_values_snoc:
  "range_values (ids @ [key]) m = range_values ids m @ (case m key of None \<Rightarrow> [] | Some p \<Rightarrow> [p])"
  by (simp add: range_values_def List.map_filter_def split: option.splits)

lemma organize_pools:
  "organizePokemonByRegion ids m c =
     (let recs = range_values ids m;
          pool = (if c = ''all'' then concat (map (\<lambda>p. if Category p = ''all'' then [p, p] else [p]) recs)
                  else filter (\<lambda>p. Category p = c) recs)
      in if c = [] \<or> pool = [] then None else Some pool)"
proof (induction ids arbitrary: c rule: rev_induct)
  case Nil
  then show ?case
    by (simp add: organizePokemonByRegion_def range_values_def List.map_filter_def)
next
  case (snoc key ids)
  let ?idx = "organizePokemonByRegion ids m"
  have step: "organizePokemonByRegion (ids @ [key]) m = organize_step m key ?idx"
    by (simp add: organizePokemonByRegion_def)
  show ?case
  proof (cases "m key")
    case None
    then show ?thesis
      unfolding step by (simp add: organize_step_def range_values_snoc snoc.IH)
  next
    case (Some p)
    have all_ne: "''all'' \<noteq> ([]::string)" by simp
    show ?thesis
      unfolding step range_values_snoc
      using Some
      by (auto simp: organize_step_def pool_of_def snoc.IH Let_def split: option.splits)
  qed
qed


lemma range_values_Nil: "range_values [] m = []"
  by (simp add: range_values_def List.map_filter_def)

lemma range_values_ids:
  "keyed_by_id m \<Longrightarrow> map ID (range_values ids m) = filter (\<lambda>key. m key \<noteq> None) ids"
  by (induction ids rule: rev_induct)
    (auto simp: range_values_snoc range_values_Nil keyed_by_id_def split: option.splits)

lemma set_range_values: "set (range_values ids m) = {p. \<exists>key \<in> set ids. m key = Some p}"
  by (induction ids rule: rev_induct)
    (auto simp: range_values_snoc range_values_Nil split: option.splits)

lemma organize_pool_nonempty:
  "organizePokemonByRegion ids m c = Some pool \<Longrightarrow> pool \<noteq> []"
  by (auto simp: organize_pools Let_def split: if_splits)

text \<open>
  In a dataset keyed by id, the pool of a category other than \<open>all\<close> has pairwise
  distinct ids; if moreover no two records of one category share a display name, it has
  pairwise distinct names.
\<close>

lemma organize_pool_distinct_ids:
  assumes enum: "enumerates ids m"
    and keyed: "keyed_by_id m"
    and pool: "organizePokemonByRegion ids m c = Some pool"
    and c: "c \<noteq> ''all''"
  shows "distinct (map ID pool)"
proof -
  from enum have "distinct (map ID (range_values ids m))"
    by (simp add: range_values_ids [OF keyed] enumerates_def)
  moreover from pool c have "pool = filter (\<lambda>p. Category p = c) (range_values ids m)"
    by (auto simp: organize_pools Let_def split: if_splits)
  ultimately show ?thesis
    by (simp add: distinct_map_filter)
qed

lemma organize_pool_distinct_names:
  assumes enum: "enumerates ids m"
    and keyed: "keyed_by_id m"
    and names: "names_distinct_in_category m"
    and pool: "organizePokemonByRegion ids m c = Some pool"
    and c: "c \<noteq> ''all''"
  shows "distinct (map Name pool)"
proof -
  have d: "distinct pool"
    using organize_pool_distinct_ids [OF enum keyed pool c] by (simp add: distinct_map)
  from pool c have p: "pool = filter (\<lambda>p. Category p = c) (range_values ids m)"
    by (auto simp: organize_pools Let_def split: if_splits)
  have "inj_on Name (set pool)"
  proof (rule inj_onI)
    fix x y
    assume x: "x \<in> set pool" and y: "y \<in> set pool" and same: "Name x = Name y"
    from x y p obtain kx ky where kx: "m kx = Some x" and ky: "m ky = Some y"
      and cat: "Category x = Category y"
      by (auto simp: set_range_values)
    show "x = y"
    proof (cases "kx = ky")
      case True
      with kx ky show ?thesis by simp
    next
      case False
      with names kx ky cat have "Name x \<noteq> Name y"
        unfolding names_distinct_in_category_def by blast
      with same show ?thesis by simp
    qed
  qed
  with d show ?thesis by (simp add: distinct_map)
qed

section \<open>Properties of the quiz engine\<close>

lemma rand_Int_below:
  "rand_Int reader k bound = Some j \<Longrightarrow> 0 < bound \<Longrightarrow> j < bound"
  by (auto simp: rand_Int_def)

lemma shuffle_from_mset:
  "i < length a \<Longrightarrow> shuffle_from reader k i a = Inr (b, k') \<Longrightarrow> mset b = mset a"
proof (induction i arbitrary: a k)
  case 0
  then show ?case by simp
next
  case (Suc i)
  from Suc.prems(2) obtain j where j: "rand_Int reader k (Suc i + 1) = Some j"
    and rest: "shuffle_from reader (Suc k) i (a[Suc i := a ! j, j := a ! Suc i]) = Inr (b, k')"
    by (auto split: option.splits)
  from j have "j < Suc i + 1" by (rule rand_Int_below) simp
  with Suc.prems(1) have jl: "j < length a" by simp
  have "mset b = mset (a[Suc i := a ! j, j := a ! Suc i])"
    using Suc.prems(1) by (intro Suc.IH [OF _ rest]) simp
  also have "\<dots> = mset a"
    using Suc.prems(1) jl by (simp add: mset_swap)
  finally show ?case .
qed

lemma shuffle_mset: "shuffle reader k a = Inr (b, k') \<Longrightarrow> mset b = mset a"
  by (cases "a = []") (auto simp: shuffle_def dest: shuffle_from_mset [rotated])

lemma shuffle_from_total:
  "\<forall>k. reader k \<noteq> None \<Longrightarrow> \<exists>b k'. shuffle_from reader k i a = Inr (b, k')"
  by (induction i arbitrary: a k) (auto simp: rand_Int_def split: option.splits)

lemma shuffle_total: "\<forall>k. reader k \<noteq> None \<Longrightarrow> \<exists>b k'. shuffle reader k a = Inr (b, k')"
  by (simp add: shuffle_def shuffle_from_total)

lemma filter_other_ids_length:
  "distinct (map f xs) \<Longrightarrow> x \<in> set xs \<Longrightarrow> length (filter (\<lambda>p. f p \<noteq> f x) xs) = length xs - 1"
proof (induction xs)
  case Nil
  then show ?case by simp
next
  case (Cons y ys)
  show ?case
  proof (cases "f y = f x")
    case True
    with Cons.prems(1) have "\<forall>p \<in> set ys. f p \<noteq> f x" by (auto simp: image_iff)
    then have "filter (\<lambda>p. f p \<noteq> f x) ys = ys" by (simp add: filter_True)
    with True show ?thesis by simp
  next
    case False
    with Cons.prems have "x \<in> set ys" by auto
    with Cons have "length (filter (\<lambda>p. f p \<noteq> f x) ys) = length ys - 1" by simp
    moreover from \<open>x \<in> set ys\<close> have "0 < length ys" by (cases ys) auto
    ultimately show ?thesis using False by simp
  qed
qed

text \<open>The options of a question that \<open>sendQuiz\<close> sends.\<close>

lemma sendQuiz_Reply:
  assumes "sendQuiz reader k pokemon optionsPool = Reply status bdy"
  shows "\<exists>cands options. status = StatusOK
           \<and> bdy = Quiz_body \<lparr>q_id = ID pokemon, q_stats = Stats pokemon, q_options = options,
                                q_height = Height pokemon, q_weight = Weight pokemon,
                                q_types = Types pokemon\<rparr>
           \<and> mset cands = mset (filter (\<lambda>p. ID p \<noteq> ID pokemon) optionsPool)
           \<and> mset options = mset (Name pokemon # map Name (take 3 cands))"
proof -
  from assms have ne: "optionsPool \<noteq> []"
    by (auto simp: sendQuiz_def)
  let ?f = "filter (\<lambda>p. ID p \<noteq> ID pokemon) optionsPool"
  from assms ne obtain cands k1 where s1: "shuffle reader k ?f = Inr (cands, k1)"
    by (auto simp: sendQuiz_def Let_def split: sum.splits)
  from assms ne s1 obtain options k2 where
    s2: "shuffle reader k1 ([Name pokemon] @ map Name (take 3 cands)) = Inr (options, k2)"
    by (auto simp: sendQuiz_def Let_def split: sum.splits)
  from assms ne s1 s2 have "status = StatusOK"
    and "bdy = Quiz_body \<lparr>q_id = ID pokemon, q_stats = Stats pokemon, q_options = options,
                                q_height = Height pokemon, q_weight = Weight pokemon,
                                q_types = Types pokemon\<rparr>"
    by (auto simp: sendQuiz_def Let_def)
  moreover from s1 have "mset cands = mset ?f" by (rule shuffle_mset)
  moreover from s2 have "mset options = mset (Name pokemon # map Name (take 3 cands))"
    by (auto dest: shuffle_mset)
  ultimately show ?thesis by blast
qed

lemma sendQuiz_total:
  assumes "\<forall>k. reader k \<noteq> None" and "optionsPool \<noteq> []"
  shows "\<exists>q. sendQuiz reader k pokemon optionsPool = Reply StatusOK (Quiz_body q)"
proof -
  let ?f = "filter (\<lambda>p. ID p \<noteq> ID pokemon) optionsPool"
  from shuffle_total [OF assms(1)] obtain cands k1 where s1: "shuffle reader k ?f = Inr (cands, k1)"
    by blast
  from shuffle_total [OF assms(1)] obtain options k2 where
    s2: "shuffle reader k1 ([Name pokemon] @ map Name (take 3 cands)) = Inr (options, k2)"
    by blast
  from assms(2) s1 s2 show ?thesis
    by (simp add: sendQuiz_def Let_def)
qed


lemma sendQuiz_options:
  assumes target: "target \<in> set pool"
    and ids: "distinct (map ID pool)"
    and names: "distinct (map Name pool)"
    and sent: "sendQuiz reader k target pool = Reply status (Quiz_body q)"
  shows "q_id q = ID target"
    and "length (q_options q) = min 4 (length pool)"
    and "count_list (q_options q) (Name target) = 1"
    and "distinct (q_options q)"
proof -
  let ?f = "filter (\<lambda>p. ID p \<noteq> ID target) pool"
  from sendQuiz_Reply [OF sent] obtain cands options where
    q: "q = \<lparr>q_id = ID target, q_stats = Stats target, q_options = options,
             q_height = Height target, q_weight = Weight target, q_types = Types target\<rparr>"
    and cands: "mset cands = mset ?f"
    and options: "mset options = mset (Name target # map Name (take 3 cands))"
    by auto
  show "q_id q = ID target" using q by simp
  have len_f: "length ?f = length pool - 1"
    using ids target by (rule filter_other_ids_length)
  have len_c: "length cands = length pool - 1"
    using cands len_f by (metis mset_eq_length)
  from target have "0 < length pool" by (cases pool) auto
  have "length options = length (Name target # map Name (take 3 cands))"
    using options by (rule mset_eq_length)
  then have "length options = 1 + min 3 (length cands)"
    by (simp add: min.commute)
  with len_c \<open>0 < length pool\<close> have "length options = min 4 (length pool)"
    by arith
  then show "length (q_options q) = min 4 (length pool)"
    using q by simp
  have set_c: "set cands = set ?f"
    using cands by (rule mset_eq_setD)
  have "distinct (map Name ?f)"
    using names by (rule distinct_map_filter)
  then have "distinct (map Name cands)"
    using cands by (metis mset_map mset_eq_imp_distinct_iff)
  then have d1: "distinct (map Name (take 3 cands))"
    by (simp add: take_map [symmetric])
  have inj: "inj_on Name (set pool)"
    using names by (simp add: distinct_map)
  have other: "Name p \<noteq> Name target" if "p \<in> set cands" for p
  proof -
    from that set_c have "p \<in> set pool" "ID p \<noteq> ID target" by auto
    then have "p \<noteq> target" by auto
    with inj \<open>p \<in> set pool\<close> target show ?thesis by (auto dest: inj_onD)
  qed
  have d2: "Name target \<notin> set (map Name (take 3 cands))"
  proof
    assume "Name target \<in> set (map Name (take 3 cands))"
    then obtain p where p: "p \<in> set (take 3 cands)" and same: "Name p = Name target"
      by auto
    from p have "p \<in> set cands" by (rule in_set_takeD)
    then have "Name p \<noteq> Name target" by (rule other)
    with same show False by simp
  qed
  from d1 d2 have d: "distinct (Name target # map Name (take 3 cands))" by simp
  then have "distinct options"
    using options by (metis mset_eq_imp_distinct_iff)
  then show "distinct (q_options q)" using q by simp
  have c0: "count_list (map Name (take 3 cands)) (Name target) = 0"
    using d2 unfolding count_list_0_iff .
  have "count_list options (Name target) = count (mset options) (Name target)"
    by (simp only: count_mset)
  also have "\<dots> = count (mset (Name target # map Name (take 3 cands))) (Name target)"
    using options by simp
  also have "\<dots> = count_list (Name target # map Name (take 3 cands)) (Name target)"
    by (simp only: count_mset)
  also have "\<dots> = 1"
    using c0 by simp
  finally show "count_list (q_options q) (Name target) = 1" using q by simp
qed


lemma handleGetQuiz_normal:
  assumes "DefaultQuery (retry_param req) ''false'' \<noteq> ''true''"
  shows "handleGetQuiz pokemonListByRegion pokemonMapByID ids reader faults db req =
     (case pokemonListByRegion (DefaultQuery (region_param req) ''kanto'') of
        None \<Rightarrow> (Reply StatusBadRequest (Error_body Invalid_region), db)
      | Some targetPokemonList \<Rightarrow>
          if targetPokemonList = [] then (Reply StatusBadRequest (Error_body Invalid_region), db)
          else
            (case rand_Int reader 0 (length targetPokemonList) of
               None \<Rightarrow> (Reply StatusInternalServerError (Error_body Random_pokemon_failed), db)
             | Some randIndex \<Rightarrow>
                 (sendQuiz reader 1 (targetPokemonList ! randIndex) targetPokemonList, db)))"
  using assms by (simp add: handleGetQuiz_def Let_def split: option.splits)

text \<open>
  C1 (as amended). In normal mode, for a pool of \<open>N \<ge> 1\<close> records whose ids are pairwise
  distinct and whose display names are pairwise distinct, every question that is sent has
  a target of the pool, exactly \<open>min 4 N\<close> options, the target's name exactly once
  among them, and no name twice; and a question is sent whenever the random source does
  not fail.
\<close>

theorem C1_options_of_a_question:
  assumes normal: "DefaultQuery (retry_param req) ''false'' \<noteq> ''true''"
    and pool: "pokemonListByRegion (DefaultQuery (region_param req) ''kanto'') = Some pool"
    and ne: "pool \<noteq> []"
    and ids: "distinct (map ID pool)"
    and names: "distinct (map Name pool)"
  shows "(\<forall>q. fst (handleGetQuiz pokemonListByRegion pokemonMapByID ids reader faults db req)
               = Reply StatusOK (Quiz_body q) \<longrightarrow>
            (\<exists>target \<in> set pool. q_id q = ID target
               \<and> length (q_options q) = min 4 (length pool)
               \<and> count_list (q_options q) (Name target) = 1
               \<and> distinct (q_options q)))
       \<and> ((\<forall>k. reader k \<noteq> None) \<longrightarrow>
            (\<exists>q. fst (handleGetQuiz pokemonListByRegion pokemonMapByID ids reader faults db req)
               = Reply StatusOK (Quiz_body q)))"
proof (intro conjI allI impI)
  fix q
  assume reply: "fst (handleGetQuiz pokemonListByRegion pokemonMapByID ids reader faults db req)
               = Reply StatusOK (Quiz_body q)"
  from reply pool ne obtain i where i: "rand_Int reader 0 (length pool) = Some i"
    and sent: "sendQuiz reader 1 (pool ! i) pool = Reply StatusOK (Quiz_body q)"
    by (auto simp: handleGetQuiz_normal [OF normal] split: option.splits)
  from i ne have "i < length pool" by (auto dest: rand_Int_below)
  then have target: "pool ! i \<in> set pool" by simp
  from sendQuiz_options [OF target ids names sent] target
  show "\<exists>target \<in> set pool. q_id q = ID target
               \<and> length (q_options q) = min 4 (length pool)
               \<and> count_list (q_options q) (Name target) = 1
               \<and> distinct (q_options q)"
    by blast
next
  assume total: "\<forall>k. reader k \<noteq> None"
  then obtain r where "reader 0 = Some r" by auto
  then have i: "rand_Int reader 0 (length pool) = Some (r mod length pool)"
    by (simp add: rand_Int_def)
  from sendQuiz_total [OF total ne] obtain q where
    "sendQuiz reader 1 (pool ! (r mod length pool)) pool = Reply StatusOK (Quiz_body q)"
    by blast
  with i pool ne
  show "\<exists>q. fst (handleGetQuiz pokemonListByRegion pokemonMapByID ids reader faults db req)
               = Reply StatusOK (Quiz_body q)"
    by (simp add: handleGetQuiz_normal [OF normal])
qed

theorem C1_witness:
  "DefaultQuery None ''false'' \<noteq> ''true''
   \<and> [''kanto'' \<mapsto> [bulbasaur, ivysaur]] (DefaultQuery (Some ''kanto'') ''kanto'') = Some [bulbasaur, ivysaur]
   \<and> distinct (map ID [bulbasaur, ivysaur])
   \<and> distinct (map Name [bulbasaur, ivysaur])
   \<and> (\<exists>q. fst (handleGetQuiz [''kanto'' \<mapsto> [bulbasaur, ivysaur]] kanto_two [1, 2] (always 0) no_faults
                  Map.empty \<lparr>region_param = Some ''kanto'', retry_param = None, quiz_user = None\<rparr>)
             = Reply StatusOK (Quiz_body q)
           \<and> length (q_options q) = 2
           \<and> distinct (q_options q)
           \<and> (\<exists>target. target \<in> set [bulbasaur, ivysaur]
                 \<and> q_id q = ID target \<and> count_list (q_options q) (Name target) = 1))"
proof -
  let ?req = "\<lparr>region_param = Some ''kanto'', retry_param = None, quiz_user = None\<rparr>"
  let ?idx = "[''kanto'' \<mapsto> [bulbasaur, ivysaur]]"
  have normal: "DefaultQuery (retry_param ?req) ''false'' \<noteq> ''true''"
    by (simp add: DefaultQuery_def)
  have pool: "?idx (DefaultQuery (region_param ?req) ''kanto'') = Some [bulbasaur, ivysaur]"
    by (simp add: DefaultQuery_def)
  have ne: "[bulbasaur, ivysaur] \<noteq> []" by simp
  have ids: "distinct (map ID [bulbasaur, ivysaur])"
    by (simp add: bulbasaur_def ivysaur_def)
  have names: "distinct (map Name [bulbasaur, ivysaur])"
    by (simp add: bulbasaur_def ivysaur_def)
  have source: "\<forall>k. always 0 k \<noteq> None" by (simp add: always_def)
  note C1 = C1_options_of_a_question [where req = ?req and pokemonListByRegion = ?idx
      and pool = "[bulbasaur, ivysaur]" and pokemonMapByID = kanto_two and ids = "[1, 2]"
      and reader = "always 0" and faults = no_faults and db = Map.empty,
      OF normal pool ne ids names]
  from C1 source obtain q where
    q: "fst (handleGetQuiz ?idx kanto_two [1, 2] (always 0) no_faults Map.empty ?req)
          = Reply StatusOK (Quiz_body q)"
    by blast
  with C1 have "\<exists>target \<in> set [bulbasaur, ivysaur]. q_id q = ID target
               \<and> length (q_options q) = min 4 (length [bulbasaur, ivysaur])
               \<and> count_list (q_options q) (Name target) = 1
               \<and> distinct (q_options q)"
    by blast
  then have "length (q_options q) = 2 \<and> distinct (q_options q)
           \<and> (\<exists>target. target \<in> set [bulbasaur, ivysaur]
                 \<and> q_id q = ID target \<and> count_list (q_options q) (Name target) = 1)"
    by auto
  with q normal pool ids names show ?thesis
    by (simp only: quiz_request.simps) blast
qed

text \<open>
  A run on the dataset of two records: with the random source always giving 0, the target
  is the first record and the two names come out swapped.
\<close>

lemma quiz_example:
  "organizePokemonByRegion [1, 2] kanto_two ''kanto'' = Some [bulbasaur, ivysaur]
   \<and> fst (handleGetQuiz (organizePokemonByRegion [1, 2] kanto_two) kanto_two [1, 2] (always 0)
             no_faults Map.empty \<lparr>region_param = None, retry_param = None, quiz_user = None\<rparr>)
       = Reply StatusOK
           (Quiz_body \<lparr>q_id = 1, q_stats = base_stats, q_options = [''Fushigisou'', ''Fushigidane''],
                       q_height = 7 / 10, q_weight = 69 / 10, q_types = [''kusa'', ''doku'']\<rparr>)"
proof -
  have idx: "organizePokemonByRegion [1, 2] kanto_two =
      [''kanto'' \<mapsto> [bulbasaur, ivysaur], ''all'' \<mapsto> [bulbasaur, ivysaur]]"
    by (simp add: organizePokemonByRegion_def organize_step_def kanto_two_def pool_of_def
        bulbasaur_def ivysaur_def Let_def)
  show ?thesis
    by (simp add: idx handleGetQuiz_def DefaultQuery_def rand_Int_def always_def sendQuiz_def
        shuffle_def bulbasaur_def ivysaur_def Let_def numeral_2_eq_2)
qed

text \<open>
  C1 as stated fails. The pool \<open>all\<close>, which the client offers like any category, holds
  the records of every category, so two records that carry the same display name in
  different categories (a species and its mega form) meet in it, and the options then
  repeat a name. And in a pool where two records carry the same id (a cache file can
  hold such records under different keys), both are removed with the target, and fewer
  than \<open>min 4 N\<close> options are left.
\<close>

theorem C1_counterexample:
  "organizePokemonByRegion [6, 20034] with_mega ''all'' = Some [charizard, charizard_mega_x]
   \<and> Category charizard \<noteq> Category charizard_mega_x
   \<and> fst (handleGetQuiz (organizePokemonByRegion [6, 20034] with_mega) with_mega [6, 20034]
             (always 0) no_faults Map.empty
             \<lparr>region_param = Some ''all'', retry_param = None, quiz_user = None\<rparr>)
       = Reply StatusOK
           (Quiz_body \<lparr>q_id = 6, q_stats = base_stats, q_options = [''Lizardon'', ''Lizardon''],
                       q_height = 17 / 10, q_weight = 905 / 10, q_types = [''honoo'', ''hikou'']\<rparr>)
   \<and> \<not> distinct [''Lizardon'', ''Lizardon'']
   \<and> count_list [''Lizardon'', ''Lizardon''] (Name charizard) = 2
   \<and> organizePokemonByRegion [1, 2] twins ''kanto'' = Some [bulbasaur, ivysaur\<lparr>ID := 1\<rparr>]
   \<and> fst (handleGetQuiz (organizePokemonByRegion [1, 2] twins) twins [1, 2]
             (always 0) no_faults Map.empty
             \<lparr>region_param = Some ''kanto'', retry_param = None, quiz_user = None\<rparr>)
       = Reply StatusOK
           (Quiz_body \<lparr>q_id = 1, q_stats = base_stats, q_options = [''Fushigidane''],
                       q_height = 7 / 10, q_weight = 69 / 10, q_types = [''kusa'', ''doku'']\<rparr>)
   \<and> length [''Fushigidane''] \<noteq> min 4 (length [bulbasaur, ivysaur\<lparr>ID := 1\<rparr>])"
proof -
  have idx1: "organizePokemonByRegion [6, 20034] with_mega =
      [''kanto'' \<mapsto> [charizard], ''mega'' \<mapsto> [charizard_mega_x],
       ''all'' \<mapsto> [charizard, charizard_mega_x]]"
    by (simp add: organizePokemonByRegion_def organize_step_def with_mega_def pool_of_def
        charizard_def charizard_mega_x_def Let_def)
  have idx2: "organizePokemonByRegion [1, 2] twins =
      [''kanto'' \<mapsto> [bulbasaur, ivysaur\<lparr>ID := 1\<rparr>], ''all'' \<mapsto> [bulbasaur, ivysaur\<lparr>ID := 1\<rparr>]]"
    by (simp add: organizePokemonByRegion_def organize_step_def twins_def pool_of_def
        bulbasaur_def ivysaur_def Let_def)
  have q1: "fst (handleGetQuiz (organizePokemonByRegion [6, 20034] with_mega) with_mega [6, 20034]
             (always 0) no_faults Map.empty
             \<lparr>region_param = Some ''all'', retry_param = None, quiz_user = None\<rparr>)
       = Reply StatusOK
           (Quiz_body \<lparr>q_id = 6, q_stats = base_stats, q_options = [''Lizardon'', ''Lizardon''],
                       q_height = 17 / 10, q_weight = 905 / 10, q_types = [''honoo'', ''hikou'']\<rparr>)"
    by (simp add: idx1 handleGetQuiz_def DefaultQuery_def rand_Int_def always_def sendQuiz_def
        shuffle_def charizard_def charizard_mega_x_def Let_def numeral_2_eq_2)
  have q2: "fst (handleGetQuiz (organizePokemonByRegion [1, 2] twins) twins [1, 2]
             (always 0) no_faults Map.empty
             \<lparr>region_param = Some ''kanto'', retry_param = None, quiz_user = None\<rparr>)
       = Reply StatusOK
           (Quiz_body \<lparr>q_id = 1, q_stats = base_stats, q_options = [''Fushigidane''],
                       q_height = 7 / 10, q_weight = 69 / 10, q_types = [''kusa'', ''doku'']\<rparr>)"
    by (simp add: idx2 handleGetQuiz_def DefaultQuery_def rand_Int_def always_def sendQuiz_def
        shuffle_def bulbasaur_def ivysaur_def Let_def)
  have cats: "Category charizard \<noteq> Category charizard_mega_x"
    by (simp add: charizard_def charizard_mega_x_def)
  have cnt: "count_list [''Lizardon'', ''Lizardon''] (Name charizard) = 2"
    by (simp add: charizard_def)
  show ?thesis
    unfolding q1 q2 using cats cnt by (simp add: idx1 idx2)
qed

text \<open>
  Review mode with nothing to review: an identified user whose missed ids decode to the
  empty list gets status 404; the row is created when the user had none.
\<close>

lemma review_nothing_to_review:
  assumes "DefaultQuery (retry_param req) ''false'' = ''true''"
    and "quiz_user req = Some userID"
    and "\<not> first_or_create_fails faults"
    and "decode_wrongIDs (FirstOrCreate db userID) = []"
  shows "handleGetQuiz pokemonListByRegion pokemonMapByID ids reader faults db req
           = (Reply StatusNotFound (Error_body No_wrong_answers),
              db(userID \<mapsto> FirstOrCreate db userID))"
  using assms by (simp add: handleGetQuiz_def Let_def)

text \<open>
  C3 (as amended). In normal mode a request for a region that is no key of the category
  index, or whose pool is empty, is answered with status 400 (\<open>http.StatusBadRequest\<close>)
  and the message "Invalid or empty region specified"; no question is sent and the table
  of user statistics is unchanged.
\<close>

theorem C3_unknown_or_empty_region_is_rejected:
  assumes "DefaultQuery (retry_param req) ''false'' \<noteq> ''true''"
    and "pokemonListByRegion (DefaultQuery (region_param req) ''kanto'') = None
         \<or> pokemonListByRegion (DefaultQuery (region_param req) ''kanto'') = Some []"
  shows "handleGetQuiz pokemonListByRegion pokemonMapByID ids reader faults db req
           = (Reply StatusBadRequest (Error_body Invalid_region), db)"
  using assms(2) by (auto simp: handleGetQuiz_normal [OF assms(1)])

theorem C3_witness:
  "DefaultQuery None ''false'' \<noteq> ''true''
   \<and> [''kanto'' \<mapsto> [bulbasaur, ivysaur], ''hoenn'' \<mapsto> []] (DefaultQuery (Some ''johto'') ''kanto'') = None
   \<and> [''kanto'' \<mapsto> [bulbasaur, ivysaur], ''hoenn'' \<mapsto> []] (DefaultQuery (Some ''hoenn'') ''kanto'') = Some []
   \<and> handleGetQuiz [''kanto'' \<mapsto> [bulbasaur, ivysaur], ''hoenn'' \<mapsto> []] kanto_two [1, 2] (always 0)
        no_faults Map.empty \<lparr>region_param = Some ''johto'', retry_param = None, quiz_user = None\<rparr>
       = (Reply StatusBadRequest (Error_body Invalid_region), Map.empty)
   \<and> handleGetQuiz [''kanto'' \<mapsto> [bulbasaur, ivysaur], ''hoenn'' \<mapsto> []] kanto_two [1, 2] (always 0)
        no_faults Map.empty \<lparr>region_param = Some ''hoenn'', retry_param = None, quiz_user = None\<rparr>
       = (Reply StatusBadRequest (Error_body Invalid_region), Map.empty)"
proof -
  let ?idx = "[''kanto'' \<mapsto> [bulbasaur, ivysaur], ''hoenn'' \<mapsto> []]"
  let ?johto = "\<lparr>region_param = Some ''johto'', retry_param = None, quiz_user = None\<rparr>"
  let ?hoenn = "\<lparr>region_param = Some ''hoenn'', retry_param = None, quiz_user = None\<rparr>"
  have n1: "DefaultQuery (retry_param ?johto) ''false'' \<noteq> ''true''"
    and n2: "DefaultQuery (retry_param ?hoenn) ''false'' \<noteq> ''true''"
    by (simp_all add: DefaultQuery_def)
  have absent: "?idx (DefaultQuery (region_param ?johto) ''kanto'') = None"
    and empty: "?idx (DefaultQuery (region_param ?hoenn) ''kanto'') = Some []"
    by (simp_all add: DefaultQuery_def)
  have a: "?idx (DefaultQuery (region_param ?johto) ''kanto'') = None
         \<or> ?idx (DefaultQuery (region_param ?johto) ''kanto'') = Some []"
    using absent by (rule disjI1)
  have e: "?idx (DefaultQuery (region_param ?hoenn) ''kanto'') = None
         \<or> ?idx (DefaultQuery (region_param ?hoenn) ''kanto'') = Some []"
    using empty by (rule disjI2)
  from C3_unknown_or_empty_region_is_rejected [where req = ?johto and pokemonListByRegion = ?idx, OF n1 a]
    C3_unknown_or_empty_region_is_rejected [where req = ?hoenn and pokemonListByRegion = ?idx, OF n2 e]
    n1 absent empty
  show ?thesis by simp
qed

text \<open>
  C3 as stated fails: the status of the rejection is 400 (\<open>http.StatusBadRequest\<close>), not
  404 (\<open>http.StatusNotFound\<close>), which the same handler uses for an empty review list.
\<close>

theorem C3_counterexample:
  "[''kanto'' \<mapsto> [bulbasaur, ivysaur]] ''johto'' = None
   \<and> status_of (fst (handleGetQuiz [''kanto'' \<mapsto> [bulbasaur, ivysaur]] kanto_two [1, 2] (always 0)
        no_faults Map.empty \<lparr>region_param = Some ''johto'', retry_param = None, quiz_user = None\<rparr>))
       = StatusBadRequest
   \<and> status_of (fst (handleGetQuiz [''kanto'' \<mapsto> [bulbasaur, ivysaur]] kanto_two [1, 2] (always 0)
        no_faults Map.empty \<lparr>region_param = Some ''johto'', retry_param = None, quiz_user = None\<rparr>))
       \<noteq> StatusNotFound"
  by (simp add: handleGetQuiz_def DefaultQuery_def Let_def)

text \<open>
  C6 (as amended). An answer for an id that is no key of the dataset is rejected with
  status 404 (\<open>http.StatusNotFound\<close>) and changes nothing. In review mode, when the missed
  id that was drawn is no key of the dataset, the request fails with status 500
  (\<open>http.StatusInternalServerError\<close>) and no question is sent.
\<close>

theorem C6_unknown_record_id:
  "(answer_body areq = Some (requestID, requestName) \<and> pokemonMapByID requestID = None \<longrightarrow>
      handleAnswer pokemonMapByID faults db areq
        = (Reply StatusNotFound (Error_body Pokemon_not_found), db))
   \<and> (DefaultQuery (retry_param req) ''false'' = ''true''
        \<and> quiz_user req = Some userID
        \<and> \<not> first_or_create_fails faults
        \<and> decode_wrongIDs (FirstOrCreate db userID) \<noteq> []
        \<and> reader 0 = Some r
        \<and> pokemonMapByID (decode_wrongIDs (FirstOrCreate db userID)
                            ! (r mod length (decode_wrongIDs (FirstOrCreate db userID)))) = None \<longrightarrow>
      fst (handleGetQuiz pokemonListByRegion pokemonMapByID ids reader faults db req)
        = Reply StatusInternalServerError (Error_body Pokemon_data_missing))"
  by (auto simp: handleAnswer_def handleGetQuiz_def rand_Int_def Let_def)

theorem C6_witness:
  "answer_body \<lparr>answer_body = Some (4, ''Lizardo''), answer_user = Some 7\<rparr> = Some (4, ''Lizardo'')
   \<and> kanto_two 4 = None
   \<and> handleAnswer kanto_two no_faults [7 \<mapsto> learner]
        \<lparr>answer_body = Some (4, ''Lizardo''), answer_user = Some 7\<rparr>
       = (Reply StatusNotFound (Error_body Pokemon_not_found), [7 \<mapsto> learner])
   \<and> decode_wrongIDs (FirstOrCreate [7 \<mapsto> learner] 7) = [1, 4]
   \<and> fst (handleGetQuiz [''kanto'' \<mapsto> [bulbasaur, ivysaur]] kanto_two [1, 2] (always 1) no_faults
        [7 \<mapsto> learner] \<lparr>region_param = None, retry_param = Some ''true'', quiz_user = Some 7\<rparr>)
       = Reply StatusInternalServerError (Error_body Pokemon_data_missing)"
proof -
  let ?areq = "\<lparr>answer_body = Some (4, ''Lizardo''), answer_user = Some (7::nat)\<rparr>"
  let ?req = "\<lparr>region_param = None, retry_param = Some ''true'', quiz_user = Some (7::nat)\<rparr>"
  have missed: "decode_wrongIDs (FirstOrCreate [7 \<mapsto> learner] 7) = [1, 4]"
    by (simp add: decode_wrongIDs_def FirstOrCreate_def learner_def)
  have absent: "kanto_two 4 = None"
    by (simp add: kanto_two_def)
  have review: "DefaultQuery (retry_param ?req) ''false'' = ''true''"
    by (simp add: DefaultQuery_def)
  have drawn: "kanto_two (decode_wrongIDs (FirstOrCreate [7 \<mapsto> learner] 7)
                 ! (1 mod length (decode_wrongIDs (FirstOrCreate [7 \<mapsto> learner] 7)))) = None"
    by (simp add: missed absent)
  have source: "always 1 0 = Some 1" by (simp add: always_def)
  have ok: "\<not> first_or_create_fails no_faults" by (simp add: no_faults_def)
  from C6_unknown_record_id [where areq = ?areq and requestID = 4 and requestName = "''Lizardo''"
      and pokemonMapByID = kanto_two and faults = no_faults and db = "[7 \<mapsto> learner]"
      and req = ?req and userID = 7 and reader = "always 1" and r = 1
      and pokemonListByRegion = "[''kanto'' \<mapsto> [bulbasaur, ivysaur]]" and ids = "[1, 2]"]
    missed absent review drawn source ok
  show ?thesis by simp
qed

text \<open>
  C6 as stated fails for the review mode: the status is 500, not 404.
\<close>

theorem C6_counterexample:
  "decode_wrongIDs (FirstOrCreate [7 \<mapsto> learner] 7) = [1, 4]
   \<and> kanto_two 4 = None
   \<and> status_of (fst (handleGetQuiz [''kanto'' \<mapsto> [bulbasaur, ivysaur]] kanto_two [1, 2] (always 1)
        no_faults [7 \<mapsto> learner]
        \<lparr>region_param = None, retry_param = Some ''true'', quiz_user = Some 7\<rparr>))
       = StatusInternalServerError
   \<and> status_of (fst (handleGetQuiz [''kanto'' \<mapsto> [bulbasaur, ivysaur]] kanto_two [1, 2] (always 1)
        no_faults [7 \<mapsto> learner]
        \<lparr>region_param = None, retry_param = Some ''true'', quiz_user = Some 7\<rparr>))
       \<noteq> StatusNotFound"
  by (simp add: handleGetQuiz_def DefaultQuery_def decode_wrongIDs_def FirstOrCreate_def
      learner_def no_faults_def rand_Int_def always_def kanto_two_def Let_def)

section \<open>Properties of the classification\<close>

lemma assign_member_keeps:
  "m key = Some p \<Longrightarrow> Category p \<noteq> [] \<Longrightarrow> assign_member region species m key = Some p"
  by (auto simp: assign_member_def split: option.splits)

lemma fold_assign_member_keeps:
  "m key = Some p \<Longrightarrow> Category p \<noteq> [] \<Longrightarrow> fold (assign_member region) members m key = Some p"
  by (induction members arbitrary: m) (simp_all add: assign_member_keeps)

lemma classify_region_keeps:
  "m key = Some p \<Longrightarrow> Category p \<noteq> [] \<Longrightarrow> classify_region provider entry m key = Some p"
  by (cases entry) (simp add: classify_region_def fold_assign_member_keeps split: option.splits)

lemma generation_pass_keeps:
  "m key = Some p \<Longrightarrow> Category p \<noteq> [] \<Longrightarrow> generation_pass provider regions m key = Some p"
  unfolding generation_pass_def
  by (induction regions arbitrary: m) (simp_all add: classify_region_keeps)

lemma special_category_nonempty: "special_category englishName = Some c \<Longrightarrow> c \<noteq> []"
  by (auto simp: special_category_def split: if_splits)

lemma special_category_cases:
  "special_category englishName = Some c \<Longrightarrow> c = ''mega'' \<or> c = ''gmax'' \<or> c = ''regional''"
  by (auto simp: special_category_def split: if_splits)

text \<open>The builder's chain of patterns and the one of the first pass choose alike.\<close>

lemma HasPrefix_append: "HasPrefix s (xs @ ys) \<Longrightarrow> HasPrefix s xs"
  by (induction s xs rule: HasPrefix.induct) auto

lemma Contains_append: "Contains s (xs @ ys) \<Longrightarrow> Contains s xs"
proof (induction s)
  case Nil
  then show ?case by simp
next
  case (Cons x s)
  then show ?case by (auto dest: HasPrefix_append)
qed

lemma variety_category_eq: "variety_category vName = special_category vName"
proof -
  have "Contains vName ''-mega''" if "Contains vName ''-mega-x'' \<or> Contains vName ''-mega-y''"
    using that Contains_append [of vName "''-mega''" "''-x''"]
      Contains_append [of vName "''-mega''" "''-y''"]
    by auto
  then show ?thesis
    by (auto simp: variety_category_def special_category_def)
qed

text \<open>
  A record whose category is not empty and agrees with its source name, or whose source
  name matches no pattern, comes out of both passes as it went in.
\<close>

lemma fetchCategoryData_keeps:
  assumes "m key = Some p"
    and "Category p \<noteq> []"
    and "special_category (EnglishName p) = None \<or> special_category (EnglishName p) = Some (Category p)"
  shows "fetchCategoryData provider regions m key = Some p"
proof -
  from assms(3) have "name_category p = p"
    by (auto simp: name_category_def)
  with assms(1) have "name_pass m key = Some p"
    by (simp add: name_pass_def)
  then show ?thesis
    unfolding fetchCategoryData_def using assms(2) by (rule generation_pass_keeps)
qed

text \<open>
  C7. The generation pass assigns a category only to records whose category is empty: it
  leaves every record with a category as it is, whatever the provider answers. The first
  pass gives a record the special category of its source name, and that category
  survives the generation pass. So every record that holds a special category from a
  name pattern (the category that the first pass finds in its source name) or from the
  builder (the category that the builder's chain finds in the name by which the record
  was fetched, its source name) holds that category after \<open>fetchCategoryData\<close>, unchanged
  in every field and regardless of its generation membership; and so does every record
  that holds a category while its source name matches no pattern.
\<close>

theorem C7_classification_keeps_categories:
  assumes "m key = Some p"
  shows "(Category p \<noteq> [] \<longrightarrow> generation_pass provider regions m key = Some p)
       \<and> (special_category (EnglishName p) = Some c \<longrightarrow>
            fetchCategoryData provider regions m key = Some (p\<lparr>Category := c\<rparr>))
       \<and> (special_category (EnglishName p) = Some (Category p)
            \<or> variety_category (EnglishName p) = Some (Category p) \<longrightarrow>
            (Category p = ''mega'' \<or> Category p = ''gmax'' \<or> Category p = ''regional'')
            \<and> fetchCategoryData provider regions m key = Some p)
       \<and> (Category p \<noteq> [] \<and> special_category (EnglishName p) = None \<longrightarrow>
            fetchCategoryData provider regions m key = Some p)"
proof (intro conjI impI)
  assume "Category p \<noteq> []"
  with assms show "generation_pass provider regions m key = Some p"
    by (rule generation_pass_keeps)
next
  assume c: "special_category (EnglishName p) = Some c"
  then have "c \<noteq> []" by (rule special_category_nonempty)
  moreover from assms c have "name_pass m key = Some (p\<lparr>Category := c\<rparr>)"
    by (simp add: name_pass_def name_category_def)
  ultimately show "fetchCategoryData provider regions m key = Some (p\<lparr>Category := c\<rparr>)"
    unfolding fetchCategoryData_def by (intro generation_pass_keeps) simp_all
next
  assume "special_category (EnglishName p) = Some (Category p)
            \<or> variety_category (EnglishName p) = Some (Category p)"
  then have agrees: "special_category (EnglishName p) = Some (Category p)"
    by (simp add: variety_category_eq)
  then show "Category p = ''mega'' \<or> Category p = ''gmax'' \<or> Category p = ''regional''"
    by (rule special_category_cases)
next
  assume "special_category (EnglishName p) = Some (Category p)
            \<or> variety_category (EnglishName p) = Some (Category p)"
  then have agrees: "special_category (EnglishName p) = Some (Category p)"
    by (simp add: variety_category_eq)
  then have "Category p \<noteq> []" by (rule special_category_nonempty)
  with assms show "fetchCategoryData provider regions m key = Some p"
    using agrees by (intro fetchCategoryData_keeps) simp_all
next
  assume "Category p \<noteq> [] \<and> special_category (EnglishName p) = None"
  with assms show "fetchCategoryData provider regions m key = Some p"
    by (intro fetchCategoryData_keeps) simp_all
qed

theorem C7_witness:
  "with_mega 20034 = Some charizard_mega_x
   \<and> Category charizard_mega_x \<noteq> []
   \<and> generation_pass kanto_members regionGenerationMap with_mega 20034 = Some charizard_mega_x
   \<and> special_category (EnglishName charizard_mega_x) = Some (Category charizard_mega_x)
   \<and> variety_category (EnglishName charizard_mega_x) = Some (Category charizard_mega_x)
   \<and> Category charizard_mega_x = ''mega''
   \<and> species_id \<lparr>species_name = ''charizard'',
                   species_url = ''https://pokeapi.co/api/v2/pokemon-species/20034/''\<rparr> = Some 20034
   \<and> fetchCategoryData kanto_members regionGenerationMap with_mega 20034 = Some charizard_mega_x
   \<and> with_mega 6 = Some charizard
   \<and> special_category (EnglishName charizard) = None
   \<and> Category charizard \<noteq> []
   \<and> fetchCategoryData kanto_members regionGenerationMap with_mega 6 = Some charizard"
proof -
  have mega: "with_mega 20034 = Some charizard_mega_x"
    and base: "with_mega 6 = Some charizard"
    by (simp_all add: with_mega_def)
  have cats: "Category charizard_mega_x \<noteq> []" "Category charizard \<noteq> []"
    "Category charizard_mega_x = ''mega''"
    by (simp_all add: charizard_mega_x_def charizard_def)
  have names: "special_category (EnglishName charizard_mega_x) = Some (Category charizard_mega_x)"
    "variety_category (EnglishName charizard_mega_x) = Some (Category charizard_mega_x)"
    "special_category (EnglishName charizard) = None"
    by (simp_all add: special_category_def variety_category_def charizard_mega_x_def charizard_def)
  have member: "species_id \<lparr>species_name = ''charizard'',
                   species_url = ''https://pokeapi.co/api/v2/pokemon-species/20034/''\<rparr> = Some 20034"
    by (simp add: species_id_def TrimSuffix_slash_def Atoi_def is_digit_def decimal_def)
  from C7_classification_keeps_categories [where m = with_mega and key = 20034
      and p = charizard_mega_x and provider = kanto_members and regions = regionGenerationMap
      and c = "''mega''", OF mega]
    C7_classification_keeps_categories [where m = with_mega and key = 6
      and p = charizard and provider = kanto_members and regions = regionGenerationMap
      and c = "''mega''", OF base]
    mega base cats names member
  show ?thesis by simp
qed

text \<open>A run of both passes: the two base records are members of generation 1.\<close>

lemma classify_example:
  "fetchCategoryData kanto_members regionGenerationMap unclassified
     = [1 \<mapsto> bulbasaur, 6 \<mapsto> charizard, 20034 \<mapsto> charizard_mega_x]"
  by (simp add: fetchCategoryData_def generation_pass_def classify_region_def assign_member_def
      name_pass_def name_category_def special_category_def regionGenerationMap_def
      kanto_members_def unclassified_def species_id_def TrimSuffix_slash_def Atoi_def
      is_digit_def decimal_def bulbasaur_def charizard_def charizard_mega_x_def fun_eq_iff)

section \<open>Properties of the dataset cache\<close>

text \<open>
  C8. On startup with a cache file whose record under the key 1 has no types, height
  zero or weight zero, \<open>fetchAllPokemonData\<close> runs once (and the classifier not at all);
  unless the loading of the type names fails, startup succeeds, the dataset in memory is
  what that run fetched, nothing of the cached dataset, and the file holds that dataset
  unless the write fails. When the type names cannot be loaded, startup fails with the
  dataset emptied and the file as it was.
\<close>

theorem C8_incomplete_cache_is_rebuilt:
  assumes "d 1 = Some p"
    and "Types p = [] \<or> Height p = 0 \<or> Weight p = 0"
  shows "fetch_runs (snd (loadOrFetchPokemonData env (initial_server (Cached d)))) = 1
       \<and> classify_runs (snd (loadOrFetchPokemonData env (initial_server (Cached d)))) = 0
       \<and> (\<not> type_names_fail env \<longrightarrow>
             fst (loadOrFetchPokemonData env (initial_server (Cached d))) = None
           \<and> g_pokemonMapByID (snd (loadOrFetchPokemonData env (initial_server (Cached d)))) = fetched env
           \<and> (\<not> write_fails env \<longrightarrow>
                g_file (snd (loadOrFetchPokemonData env (initial_server (Cached d))))
                  = Cached (fetched env)))
       \<and> (type_names_fail env \<longrightarrow>
             fst (loadOrFetchPokemonData env (initial_server (Cached d))) = Some Refetch_failed
           \<and> g_pokemonMapByID (snd (loadOrFetchPokemonData env (initial_server (Cached d)))) = Map.empty
           \<and> g_file (snd (loadOrFetchPokemonData env (initial_server (Cached d)))) = Cached d)"
  using assms
  by (simp add: loadOrFetchPokemonData_def initial_server_def incomplete_def
      fetchAllPokemonData_def WriteFile_def organize_def Let_def)

theorem C8_witness:
  "stale 1 = Some (bulbasaur\<lparr>Weight := 0\<rparr>)
   \<and> (Types (bulbasaur\<lparr>Weight := 0\<rparr>) = [] \<or> Height (bulbasaur\<lparr>Weight := 0\<rparr>) = 0
        \<or> Weight (bulbasaur\<lparr>Weight := 0\<rparr>) = 0)
   \<and> \<not> type_names_fail calm \<and> \<not> write_fails calm \<and> type_names_fail offline
   \<and> fst (loadOrFetchPokemonData calm (initial_server (Cached stale))) = None
   \<and> fetch_runs (snd (loadOrFetchPokemonData calm (initial_server (Cached stale)))) = 1
   \<and> g_pokemonMapByID (snd (loadOrFetchPokemonData calm (initial_server (Cached stale)))) = kanto_two
   \<and> g_file (snd (loadOrFetchPokemonData calm (initial_server (Cached stale)))) = Cached kanto_two
   \<and> fst (loadOrFetchPokemonData offline (initial_server (Cached stale))) = Some Refetch_failed
   \<and> g_file (snd (loadOrFetchPokemonData offline (initial_server (Cached stale)))) = Cached stale"
proof -
  have sample: "stale 1 = Some (bulbasaur\<lparr>Weight := 0\<rparr>)"
    by (simp add: stale_def)
  have bad: "Types (bulbasaur\<lparr>Weight := 0\<rparr>) = [] \<or> Height (bulbasaur\<lparr>Weight := 0\<rparr>) = 0
        \<or> Weight (bulbasaur\<lparr>Weight := 0\<rparr>) = 0"
    by simp
  have env: "\<not> type_names_fail calm" "\<not> write_fails calm" "type_names_fail offline"
    "fetched calm = kanto_two"
    by (simp_all add: calm_def offline_def)
  from C8_incomplete_cache_is_rebuilt [where d = stale and p = "bulbasaur\<lparr>Weight := 0\<rparr>"
      and env = calm, OF sample bad]
    C8_incomplete_cache_is_rebuilt [where d = stale and p = "bulbasaur\<lparr>Weight := 0\<rparr>"
      and env = offline, OF sample bad] sample bad env
  show ?thesis by simp
qed

text \<open>
  C10. When the cached dataset has no record under the key 1, the completeness test is
  not made: whatever its records lack, startup succeeds with exactly the cached dataset
  in memory, the file untouched, and neither \<open>fetchAllPokemonData\<close> nor the classifier
  run.
\<close>

theorem C10_cache_without_sample_record_is_accepted:
  assumes "d 1 = None"
  shows "loadOrFetchPokemonData env (initial_server (Cached d))
           = (None, organize env ((initial_server (Cached d))\<lparr>g_pokemonMapByID := d\<rparr>))
       \<and> g_pokemonMapByID (snd (loadOrFetchPokemonData env (initial_server (Cached d)))) = d
       \<and> g_file (snd (loadOrFetchPokemonData env (initial_server (Cached d)))) = Cached d
       \<and> fetch_runs (snd (loadOrFetchPokemonData env (initial_server (Cached d)))) = 0
       \<and> classify_runs (snd (loadOrFetchPokemonData env (initial_server (Cached d)))) = 0"
  using assms
  by (simp add: loadOrFetchPokemonData_def initial_server_def organize_def Let_def)


theorem C10_witness:
  "headless 1 = None
   \<and> headless 2 = Some (ivysaur\<lparr>Types := [], Height := 0, Weight := 0\<rparr>)
   \<and> incomplete (ivysaur\<lparr>Types := [], Height := 0, Weight := 0\<rparr>)
   \<and> fst (loadOrFetchPokemonData calm (initial_server (Cached headless))) = None
   \<and> g_pokemonMapByID (snd (loadOrFetchPokemonData calm (initial_server (Cached headless)))) = headless
   \<and> g_file (snd (loadOrFetchPokemonData calm (initial_server (Cached headless)))) = Cached headless
   \<and> fetch_runs (snd (loadOrFetchPokemonData calm (initial_server (Cached headless)))) = 0"
proof -
  have none: "headless 1 = None"
    and two: "headless 2 = Some (ivysaur\<lparr>Types := [], Height := 0, Weight := 0\<rparr>)"
    by (simp_all add: headless_def)
  have inc: "incomplete (ivysaur\<lparr>Types := [], Height := 0, Weight := 0\<rparr>)"
    by (simp add: incomplete_def)
  from C10_cache_without_sample_record_is_accepted [where d = headless and env = calm, OF none]
    none two inc
  show ?thesis by (simp add: organize_def initial_server_def)
qed

section \<open>Properties of the legacy migration\<close>

lemma migrate_fold:
  "fold (migrate_step m wrongIDs) keys Map.empty c =
     (if c = [] \<or> tally m wrongIDs c keys = 0 then None
      else Some \<lparr>Total = of_nat (tally m wrongIDs c keys), Correct = 0\<rparr>)"
proof (induction keys arbitrary: c rule: rev_induct)
  case Nil
  then show ?case by (simp add: tally_def)
next
  case (snoc key keys)
  let ?acc = "fold (migrate_step m wrongIDs) keys Map.empty"
  have step: "fold (migrate_step m wrongIDs) (keys @ [key]) Map.empty c = migrate_step m wrongIDs key ?acc c"
    by simp
  have t: "tally m wrongIDs c (keys @ [key]) =
             tally m wrongIDs c keys + (if key \<in> set wrongIDs \<and> in_category m c key then 1 else 0)"
    by (simp add: tally_def)
  show ?case
  proof (cases "m key")
    case None
    then show ?thesis
      unfolding step t by (simp add: migrate_step_def in_category_def snoc.IH)
  next
    case (Some p)
    show ?thesis
    proof (cases "Category p = [] \<or> key \<notin> set wrongIDs")
      case True
      with Some show ?thesis
        unfolding step t by (auto simp: migrate_step_def in_category_def snoc.IH)
    next
      case False
      with Some have upd: "migrate_step m wrongIDs key ?acc =
          ?acc(Category p \<mapsto> (map_read ?acc (Category p))\<lparr>Total := Total (map_read ?acc (Category p)) + 1\<rparr>)"
        by (simp add: migrate_step_def Let_def)
      show ?thesis
      proof (cases "c = Category p")
        case True
        with False Some have "in_category m c key" "key \<in> set wrongIDs" "c \<noteq> []"
          by (simp_all add: in_category_def)
        then show ?thesis
          unfolding step t upd using True
          by (simp add: map_read_def zero_detail_def snoc.IH [of "Category p"])
      next
        case c: False
        with Some have "\<not> in_category m c key" by (simp add: in_category_def)
        then show ?thesis
          unfolding step t upd using c by (simp add: snoc.IH)
      qed
    qed
  qed
qed

lemma tally_enumerates:
  assumes "enumerates keys m"
  shows "tally m wrongIDs c keys = missed_in_category m wrongIDs c"
proof -
  from assms have d: "distinct keys" and s: "set keys = dom m"
    by (simp_all add: enumerates_def)
  have "tally m wrongIDs c keys = card ({key. key \<in> set wrongIDs \<and> in_category m c key} \<inter> set keys)"
    unfolding tally_def using d by (rule distinct_length_filter)
  also have "{key. key \<in> set wrongIDs \<and> in_category m c key} \<inter> set keys
               = {key. in_category m c key} \<inter> set (remdups wrongIDs)"
    using s by (auto simp: in_category_def split: option.splits)
  also have "card \<dots> = missed_in_category m wrongIDs c"
    unfolding missed_in_category_def by (simp add: distinct_length_filter)
  finally show ?thesis .
qed

lemma missed_in_category_card:
  "missed_in_category m wrongIDs c =
     card {key \<in> set wrongIDs. \<exists>p. m key = Some p \<and> Category p = c}"
proof -
  have "missed_in_category m wrongIDs c = card ({key. in_category m c key} \<inter> set (remdups wrongIDs))"
    unfolding missed_in_category_def by (simp add: distinct_length_filter)
  also have "{key. in_category m c key} \<inter> set (remdups wrongIDs)
               = {key \<in> set wrongIDs. \<exists>p. m key = Some p \<and> Category p = c}"
    by (auto simp: in_category_def split: option.splits)
  finally show ?thesis .
qed

text \<open>
  C9. When the row of the user decodes to an empty per-category map and its count of
  answered questions is positive, \<open>handleGetStats\<close> replies with the map that the
  migration computes: for each category, the entry has as total the number of missed
  ids (each counted once) whose record carries that category and as correct count 0,
  and a category without such a record has no entry (it reads as total 0, correct 0);
  records without a category are not counted. The table is returned unchanged, and a
  second call gives the same reply.
\<close>

theorem C9_migration_counts_missed_records:
  assumes "enumerates ids pokemonMapByID"
    and "db userID = Some userStat"
    and "decode_regionalStats userStat = Map.empty"
    and "0 < sint (TotalQuestions userStat)"
  shows "\<exists>view. handleGetStats pokemonMapByID ids False db userID = (Reply StatusOK (Stats_body view), db)
           \<and> v_RegionalStats view = migrateRegionalStatsFromWrongAnswers pokemonMapByID ids userStat
           \<and> (\<forall>c. v_RegionalStats view c =
                 (if c = [] \<or> missed_in_category pokemonMapByID (decode_wrongIDs userStat) c = 0 then None
                  else Some \<lparr>Total = of_nat (missed_in_category pokemonMapByID (decode_wrongIDs userStat) c),
                             Correct = 0\<rparr>))
           \<and> handleGetStats pokemonMapByID ids False
                (snd (handleGetStats pokemonMapByID ids False db userID)) userID
               = handleGetStats pokemonMapByID ids False db userID"
proof -
  let ?r = "migrateRegionalStatsFromWrongAnswers pokemonMapByID ids userStat"
  let ?view = "\<lparr>v_TotalQuestions = TotalQuestions userStat, v_TotalCorrect = TotalCorrect userStat,
                v_WrongAnswers = WrongAnswers userStat, v_RegionalStats = ?r\<rparr>"
  have run: "handleGetStats pokemonMapByID ids False db userID = (Reply StatusOK (Stats_body ?view), db)"
    using assms(2-4) by (simp add: handleGetStats_def Let_def)
  have counts: "?r c =
                 (if c = [] \<or> missed_in_category pokemonMapByID (decode_wrongIDs userStat) c = 0 then None
                  else Some \<lparr>Total = of_nat (missed_in_category pokemonMapByID (decode_wrongIDs userStat) c),
                             Correct = 0\<rparr>)" for c
    unfolding migrateRegionalStatsFromWrongAnswers_def migrate_fold tally_enumerates [OF assms(1)] ..
  from run counts show ?thesis by simp
qed

theorem C9_witness:
  "enumerates [1, 2] kanto_two
   \<and> [7 \<mapsto> legacy] 7 = Some legacy
   \<and> decode_regionalStats legacy = Map.empty
   \<and> 0 < sint (TotalQuestions legacy)
   \<and> decode_wrongIDs legacy = [2, 4, 2]
   \<and> (\<exists>view. handleGetStats kanto_two [1, 2] False [7 \<mapsto> legacy] 7
                = (Reply StatusOK (Stats_body view), [7 \<mapsto> legacy])
            \<and> v_RegionalStats view ''kanto'' = Some \<lparr>Total = 1, Correct = 0\<rparr>
            \<and> v_RegionalStats view ''johto'' = None)"
proof -
  have enum: "enumerates [1, 2] kanto_two"
    by (auto simp: enumerates_def kanto_two_def)
  have row: "[7 \<mapsto> legacy] 7 = Some legacy" by simp
  have empty: "decode_regionalStats legacy = Map.empty"
    by (simp add: decode_regionalStats_def legacy_def)
  have positive: "0 < sint (TotalQuestions legacy)"
    by (simp add: legacy_def)
  have missed: "decode_wrongIDs legacy = [2, 4, 2]"
    by (simp add: decode_wrongIDs_def legacy_def)
  have n: "missed_in_category kanto_two [2, 4, 2] ''kanto'' = 1"
    "missed_in_category kanto_two [2, 4, 2] ''johto'' = 0"
    by (simp_all add: missed_in_category_def in_category_def kanto_two_def ivysaur_def)
  from C9_migration_counts_missed_records [where ids = "[1, 2]" and pokemonMapByID = kanto_two
      and db = "[7 \<mapsto> legacy]" and userID = 7 and userStat = legacy,
      OF enum row empty positive]
  obtain view where
    "handleGetStats kanto_two [1, 2] False [7 \<mapsto> legacy] 7
       = (Reply StatusOK (Stats_body view), [7 \<mapsto> legacy])"
    and "\<forall>c. v_RegionalStats view c =
           (if c = [] \<or> missed_in_category kanto_two (decode_wrongIDs legacy) c = 0 then None
            else Some \<lparr>Total = of_nat (missed_in_category kanto_two (decode_wrongIDs legacy) c),
                       Correct = 0\<rparr>)"
    by blast
  then have "handleGetStats kanto_two [1, 2] False [7 \<mapsto> legacy] 7
       = (Reply StatusOK (Stats_body view), [7 \<mapsto> legacy])
     \<and> v_RegionalStats view ''kanto'' = Some \<lparr>Total = 1, Correct = 0\<rparr>
     \<and> v_RegionalStats view ''johto'' = None"
    by (simp add: missed n)
  with enum row empty positive missed show ?thesis by blast
qed

end
